theory Spec2Isabelle
  imports Complex_Main "HOL-Library.Multiset"
begin

section \<open>Python values used by the discovery service\<close>

text \<open>
  The service (\<^verbatim>\<open>subscription_discovery_service.py\<close>) computes with Python \<^verbatim>\<open>str\<close>,
  \<^verbatim>\<open>float\<close>, \<^verbatim>\<open>Decimal\<close> and \<^verbatim>\<open>datetime\<close> values. In this development
  \<^item> a \<^verbatim>\<open>str\<close> is a \<^typ>\<open>string\<close> of ASCII characters;
  \<^item> a \<^verbatim>\<open>Decimal\<close> is an exact rational (\<^typ>\<open>rat\<close>);
  \<^item> a \<^verbatim>\<open>float\<close> of the analytics engine, whose totals are rounded to two decimals, is an
    IEEE-754 double (\<open>pyfloat\<close> below); the confidence scores and the amounts compared by the
    other components are exact rationals;
  \<^item> a \<^verbatim>\<open>datetime\<close> is a number of microseconds since \<^verbatim>\<open>datetime.min\<close>, tagged as
    naive or timezone-aware, because ordering and subtracting a naive and an aware value
    raises \<^verbatim>\<open>TypeError\<close>.
\<close>

datatype error = TypeError | OverflowError

subsection \<open>Dates and times\<close>

datatype datetime =
    Naive nat    \<comment> \<open>wall-clock microseconds since \<^verbatim>\<open>datetime.min\<close>\<close>
  | Aware nat int    \<comment> \<open>wall-clock microseconds since \<^verbatim>\<open>datetime.min\<close>, and the UTC offset\<close>

definition us_per_day :: nat where
  "us_per_day = 86400000000"

definition datetime_min :: datetime where
  \<comment> \<open>\<^verbatim>\<open>datetime.min.replace(tzinfo=None)\<close>\<close>
  "datetime_min = Naive 0"

definition datetime_max_us :: nat where
  \<comment> \<open>\<^verbatim>\<open>datetime.max\<close> is 9999-12-31 23:59:59.999999, the last microsecond of day 3652059\<close>
  "datetime_max_us = 3652059 * us_per_day - 1"

definition of_day :: "nat \<Rightarrow> datetime" where
  \<comment> \<open>midnight of the day with the given number, as \<^verbatim>\<open>strptime(s, '%Y-%m-%d')\<close> returns it\<close>
  "of_day d = Naive (d * us_per_day)"

fun dt_gt :: "datetime \<Rightarrow> datetime \<Rightarrow> error + bool" where
  \<comment> \<open>\<^verbatim>\<open>a > b\<close>\<close>
  "dt_gt (Naive a) (Naive b) = Inr (a > b)"
| "dt_gt (Aware a oa) (Aware b ob) = Inr (int a - oa > int b - ob)"
| "dt_gt (Naive a) (Aware b ob) = Inl TypeError"
| "dt_gt (Aware a oa) (Naive b) = Inl TypeError"

definition dt_max2 :: "datetime \<Rightarrow> datetime \<Rightarrow> error + datetime" where
  \<comment> \<open>\<^verbatim>\<open>max(a, b)\<close>: the first argument unless the second is greater\<close>
  "dt_max2 a b = (case dt_gt b a of Inl e \<Rightarrow> Inl e | Inr gt \<Rightarrow> Inr (if gt then b else a))"

fun dt_sub_days :: "datetime \<Rightarrow> datetime \<Rightarrow> error + int" where
  \<comment> \<open>\<^verbatim>\<open>(a - b).days\<close>\<close>
  "dt_sub_days (Naive a) (Naive b) = Inr ((int a - int b) div int us_per_day)"
| "dt_sub_days (Aware a oa) (Aware b ob) = Inr (((int a - oa) - (int b - ob)) div int us_per_day)"
| "dt_sub_days (Naive a) (Aware b ob) = Inl TypeError"
| "dt_sub_days (Aware a oa) (Naive b) = Inl TypeError"

fun dt_add_days :: "datetime \<Rightarrow> nat \<Rightarrow> error + datetime" where
  \<comment> \<open>\<^verbatim>\<open>d + timedelta(days=n)\<close>\<close>
  "dt_add_days (Naive a) n =
     (if a + n * us_per_day > datetime_max_us then Inl OverflowError
      else Inr (Naive (a + n * us_per_day)))"
| "dt_add_days (Aware a oa) n =
     (if a + n * us_per_day > datetime_max_us then Inl OverflowError
      else Inr (Aware (a + n * us_per_day) oa))"

subsection \<open>Strings\<close>

definition py_ord :: "char \<Rightarrow> nat" where
  \<comment> \<open>\<^verbatim>\<open>ord(c)\<close>\<close>
  "py_ord c = of_char c"

definition is_upper :: "char \<Rightarrow> bool" where
  "is_upper c = (65 \<le> py_ord c \<and> py_ord c \<le> 90)"

definition is_lower :: "char \<Rightarrow> bool" where
  "is_lower c = (97 \<le> py_ord c \<and> py_ord c \<le> 122)"

definition is_alpha :: "char \<Rightarrow> bool" where
  "is_alpha c = (is_upper c \<or> is_lower c)"

definition is_digit :: "char \<Rightarrow> bool" where
  "is_digit c = (48 \<le> py_ord c \<and> py_ord c \<le> 57)"

definition is_space :: "char \<Rightarrow> bool" where
  \<comment> \<open>space, \<^verbatim>\<open>\t \n \v \f \r\<close>\<close>
  "is_space c = (py_ord c = 32 \<or> (9 \<le> py_ord c \<and> py_ord c \<le> 13))"

definition lower_chr :: "char \<Rightarrow> char" where
  "lower_chr c = (if is_upper c then char_of (py_ord c + 32) else c)"

definition upper_chr :: "char \<Rightarrow> char" where
  "upper_chr c = (if is_lower c then char_of (py_ord c - 32) else c)"

definition lower :: "string \<Rightarrow> string" where
  \<comment> \<open>\<^verbatim>\<open>str.lower()\<close>\<close>
  "lower s = map lower_chr s"

definition strip :: "string \<Rightarrow> string" where
  \<comment> \<open>\<^verbatim>\<open>str.strip()\<close>\<close>
  "strip s = rev (dropWhile is_space (rev (dropWhile is_space s)))"

definition strip_chr :: "char \<Rightarrow> string \<Rightarrow> string" where
  \<comment> \<open>\<^verbatim>\<open>str.strip(c)\<close> for a one-character argument\<close>
  "strip_chr c s = rev (dropWhile ((=) c) (rev (dropWhile ((=) c) s)))"

fun title_from :: "bool \<Rightarrow> string \<Rightarrow> string" where
  "title_from prev_cased [] = []"
| "title_from prev_cased (c # cs) =
     (if prev_cased then lower_chr c else upper_chr c) # title_from (is_alpha c) cs"

definition title :: "string \<Rightarrow> string" where
  \<comment> \<open>\<^verbatim>\<open>str.title()\<close>: a letter is upper-cased unless the previous character is a letter\<close>
  "title s = title_from False s"

fun starts_with :: "string \<Rightarrow> string \<Rightarrow> bool" where
  "starts_with [] s = True"
| "starts_with (p # ps) [] = False"
| "starts_with (p # ps) (c # cs) = (p = c \<and> starts_with ps cs)"

fun contains :: "string \<Rightarrow> string \<Rightarrow> bool" where
  \<comment> \<open>\<^verbatim>\<open>sub in s\<close>\<close>
  "contains sub [] = (sub = [])"
| "contains sub (c # cs) = (starts_with sub (c # cs) \<or> contains sub cs)"

fun split_on :: "char \<Rightarrow> string \<Rightarrow> string list" where
  \<comment> \<open>\<^verbatim>\<open>s.split(c)\<close> for a one-character separator\<close>
  "split_on d [] = [[]]"
| "split_on d (c # cs) =
     (if c = d then [] # split_on d cs
      else (case split_on d cs of [] \<Rightarrow> [[c]] | w # ws \<Rightarrow> (c # w) # ws))"

subsection \<open>Regular expressions\<close>

text \<open>
  The fragment of \<^verbatim>\<open>re\<close> that the service's patterns use: single characters and character
  classes, greedy repetition of a character class, \<^verbatim>\<open>^\<close>, concatenation, alternation and
  one capturing group. \<^term>\<open>rx_run\<close> lists the ways a pattern can match at a position in
  the order in which the backtracking matcher tries them, so the head of the list is the
  match that \<^verbatim>\<open>re\<close> reports.
\<close>

datatype rx =
    Chr "char \<Rightarrow> bool"
  | Rep "char \<Rightarrow> bool"
  | Bol
  | Eps
  | Seq rx rx
  | Alt rx rx
  | Grp rx

type_synonym rx_state = "nat \<times> string \<times> string option"

fun rx_run :: "rx \<Rightarrow> rx_state \<Rightarrow> rx_state list" where
  "rx_run (Chr p) (i, s, g) =
     (case s of [] \<Rightarrow> [] | c # cs \<Rightarrow> if p c then [(Suc i, cs, g)] else [])"
| "rx_run (Rep p) (i, s, g) =
     map (\<lambda>k. (i + k, drop k s, g)) (rev [0..<Suc (length (takeWhile p s))])"
| "rx_run Bol (i, s, g) = (if i = 0 then [(i, s, g)] else [])"
| "rx_run Eps st = [st]"
| "rx_run (Seq a b) st = concat (map (rx_run b) (rx_run a st))"
| "rx_run (Alt a b) st = rx_run a st @ rx_run b st"
| "rx_run (Grp a) (i, s, g) =
     map (\<lambda>(j, s', g'). (j, s', Some (take (j - i) s))) (rx_run a (i, s, g))"

definition rx_at :: "rx \<Rightarrow> nat \<Rightarrow> string \<Rightarrow> (nat \<times> string option) option" where
  \<comment> \<open>the match starting at position \<open>i\<close> (where \<open>s\<close> is the text from \<open>i\<close> on): its end and group 1\<close>
  "rx_at r i s = (case rx_run r (i, s, None) of [] \<Rightarrow> None | (j, s', g) # _ \<Rightarrow> Some (j, g))"

fun search_from :: "rx \<Rightarrow> nat \<Rightarrow> string \<Rightarrow> (nat \<times> nat \<times> string option) option" where
  "search_from r i [] = (case rx_at r i [] of None \<Rightarrow> None | Some (j, g) \<Rightarrow> Some (i, j, g))"
| "search_from r i (c # cs) =
     (case rx_at r i (c # cs) of
        None \<Rightarrow> search_from r (Suc i) cs
      | Some (j, g) \<Rightarrow> Some (i, j, g))"

definition re_search :: "rx \<Rightarrow> string \<Rightarrow> (nat \<times> nat \<times> string option) option" where
  \<comment> \<open>\<^verbatim>\<open>re.search\<close>: start, end and group 1 of the leftmost match\<close>
  "re_search r s = search_from r 0 s"

definition re_match :: "rx \<Rightarrow> string \<Rightarrow> (nat \<times> string option) option" where
  \<comment> \<open>\<^verbatim>\<open>re.match\<close>: a match at position 0 only\<close>
  "re_match r s = rx_at r 0 s"

fun findall_from :: "rx \<Rightarrow> nat \<Rightarrow> nat \<Rightarrow> string \<Rightarrow> string list" where
  \<comment> \<open>\<open>skip\<close> characters belong to the previous match and are passed over\<close>
  "findall_from r skip i [] =
     (if skip = 0 then (case rx_at r i [] of Some (j, Some g) \<Rightarrow> [g] | _ \<Rightarrow> []) else [])"
| "findall_from r skip i (c # cs) =
     (if skip > 0 then findall_from r (skip - 1) (Suc i) cs
      else (case rx_at r i (c # cs) of
              Some (j, Some g) \<Rightarrow> g # findall_from r (j - i - 1) (Suc i) cs
            | _ \<Rightarrow> findall_from r 0 (Suc i) cs))"

definition re_findall :: "rx \<Rightarrow> string \<Rightarrow> string list" where
  \<comment> \<open>\<^verbatim>\<open>re.findall\<close> for a pattern with one group: group 1 of each match, left to right\<close>
  "re_findall r s = findall_from r 0 0 s"

fun sub_from :: "rx \<Rightarrow> string \<Rightarrow> nat \<Rightarrow> nat \<Rightarrow> string \<Rightarrow> string" where
  "sub_from r repl skip i [] =
     (if skip = 0 then (case rx_at r i [] of Some jg \<Rightarrow> repl | None \<Rightarrow> []) else [])"
| "sub_from r repl skip i (c # cs) =
     (if skip > 0 then sub_from r repl (skip - 1) (Suc i) cs
      else (case rx_at r i (c # cs) of
              Some (j, g) \<Rightarrow>
                (if j = i then repl @ c # sub_from r repl 0 (Suc i) cs
                 else repl @ sub_from r repl (j - i - 1) (Suc i) cs)
            | None \<Rightarrow> c # sub_from r repl 0 (Suc i) cs))"

definition re_sub :: "rx \<Rightarrow> string \<Rightarrow> string \<Rightarrow> string" where
  \<comment> \<open>\<^verbatim>\<open>re.sub(pattern, repl, s)\<close> for a replacement without group references\<close>
  "re_sub r repl s = sub_from r repl 0 0 s"

definition lit :: "string \<Rightarrow> rx" where
  \<comment> \<open>a literal string, matched exactly\<close>
  "lit s = foldr (\<lambda>c r. Seq (Chr ((=) c)) r) s Eps"

definition lit_i :: "string \<Rightarrow> rx" where
  \<comment> \<open>a lower-case literal under \<^verbatim>\<open>re.IGNORECASE\<close>\<close>
  "lit_i s = foldr (\<lambda>c r. Seq (Chr (\<lambda>x. lower_chr x = c)) r) s Eps"

definition opt :: "rx \<Rightarrow> rx" where
  \<comment> \<open>\<^verbatim>\<open>r?\<close>\<close>
  "opt r = Alt r Eps"

definition rep1 :: "(char \<Rightarrow> bool) \<Rightarrow> rx" where
  \<comment> \<open>\<^verbatim>\<open>[class]+\<close>\<close>
  "rep1 p = Seq (Chr p) (Rep p)"

fun seqs :: "rx list \<Rightarrow> rx" where
  "seqs [] = Eps"
| "seqs (r # rs) = Seq r (seqs rs)"

fun alts :: "rx list \<Rightarrow> rx" where
  "alts [] = Chr (\<lambda>c. False)"
| "alts [r] = r"
| "alts (r # rs) = Alt r (alts rs)"

subsection \<open>Numbers\<close>

definition digits_val :: "string \<Rightarrow> nat" where
  "digits_val ds = foldl (\<lambda>a c. 10 * a + (py_ord c - 48)) 0 ds"

definition to_float :: "string \<Rightarrow> rat option" where
  \<comment> \<open>\<^verbatim>\<open>float(s)\<close> on the strings the amount patterns capture (digits, then optionally a
     point and digits); \<^verbatim>\<open>None\<close> stands for \<^verbatim>\<open>ValueError\<close>\<close>
  "to_float s =
     (let ip = takeWhile is_digit s; rest = dropWhile is_digit s in
      if ip = [] then None
      else (case rest of
              [] \<Rightarrow> Some (of_nat (digits_val ip))
            | c # fr \<Rightarrow>
                if c = CHR ''.'' \<and> list_all is_digit fr
                then Some (of_nat (digits_val ip) + of_nat (digits_val fr) / 10 ^ length fr)
                else None))"

subsection \<open>Binary floating point\<close>

text \<open>
  A double is a finite rational \<open>m \<times> 2\<^sup>e\<close> with a mantissa \<open>m\<close> of at most 53 bits and
  \<open>e \<ge> -1074\<close>, an infinity or a NaN; the two zeros are not told apart. Every arithmetic
  operation returns the double nearest to the exact result, a tie going to the even
  mantissa, and an infinity beyond the largest double.
\<close>

datatype pyfloat =
    Fin rat
  | Inf bool    \<comment> \<open>\<open>Inf True\<close> is \<^verbatim>\<open>inf\<close>, \<open>Inf False\<close> is \<^verbatim>\<open>-inf\<close>\<close>
  | NaN

function bit_length :: "int \<Rightarrow> int" where
  \<comment> \<open>\<^verbatim>\<open>n.bit_length()\<close> for \<open>n \<ge> 0\<close>\<close>
  "bit_length n = (if n \<le> 0 then 0 else 1 + bit_length (n div 2))"
  by pat_completeness auto
termination
  by (relation "measure nat") auto

definition pow2 :: "int \<Rightarrow> rat" where
  "pow2 e = (if 0 \<le> e then 2 ^ nat e else 1 / 2 ^ nat (- e))"

definition ilog2 :: "rat \<Rightarrow> int" where
  \<comment> \<open>for \<open>a > 0\<close>, the exponent \<open>e\<close> with \<open>2\<^sup>e \<le> a < 2\<^sup>e\<^sup>+\<^sup>1\<close>\<close>
  "ilog2 a = (if 1 \<le> a then bit_length \<lfloor>a\<rfloor> - 1 else - bit_length (\<lceil>1 / a\<rceil> - 1))"

definition round_half_even :: "rat \<Rightarrow> int" where
  \<comment> \<open>the nearest integer, a tie going to the even one\<close>
  "round_half_even y =
     (let f = \<lfloor>y\<rfloor>; d = y - of_int f in
      if d < 1 / 2 then f else if d > 1 / 2 then f + 1 else if even f then f else f + 1)"

definition float_of :: "rat \<Rightarrow> pyfloat" where
  \<comment> \<open>the double nearest to \<open>x\<close>: \<^verbatim>\<open>float(d)\<close> of a \<^verbatim>\<open>Decimal\<close>, the value of a decimal
     literal, and the rounding of every exact result. The spacing of the doubles around \<open>x\<close>
     is \<open>2\<^sup>e\<^sup>-\<^sup>5\<^sup>2\<close>, where \<open>e\<close> is the exponent of \<open>x\<close> and at least -1022.\<close>
  "float_of x =
     (if x = 0 then Fin 0
      else
        (let a = \<bar>x\<bar>;
             e = max (ilog2 a) (- 1022);
             q = pow2 (e - 52);
             m = round_half_even (a / q);
             r = of_int m * q in
         if 1023 < e \<or> (e = 1023 \<and> m = 9007199254740992) then Inf (0 < x)
         else Fin (if 0 < x then r else - r)))"

fun fadd :: "pyfloat \<Rightarrow> pyfloat \<Rightarrow> pyfloat" where
  \<comment> \<open>\<^verbatim>\<open>a + b\<close>\<close>
  "fadd (Fin x) (Fin y) = float_of (x + y)"
| "fadd (Fin x) (Inf s) = Inf s"
| "fadd (Inf s) (Fin y) = Inf s"
| "fadd (Inf s) (Inf t) = (if s = t then Inf s else NaN)"
| "fadd NaN b = NaN"
| "fadd a NaN = NaN"

fun fmul :: "pyfloat \<Rightarrow> pyfloat \<Rightarrow> pyfloat" where
  \<comment> \<open>\<^verbatim>\<open>a * b\<close>\<close>
  "fmul (Fin x) (Fin y) = float_of (x * y)"
| "fmul (Fin x) (Inf s) = (if x = 0 then NaN else Inf (s = (0 < x)))"
| "fmul (Inf s) (Fin y) = (if y = 0 then NaN else Inf (s = (0 < y)))"
| "fmul (Inf s) (Inf t) = Inf (s = t)"
| "fmul NaN b = NaN"
| "fmul a NaN = NaN"

fun fdiv_int :: "pyfloat \<Rightarrow> nat \<Rightarrow> pyfloat" where
  \<comment> \<open>\<^verbatim>\<open>a / n\<close> for an \<^verbatim>\<open>int\<close> \<open>n\<close> with \<open>0 < n\<close> that a double holds exactly\<close>
  "fdiv_int (Fin x) n = float_of (x / of_nat n)"
| "fdiv_int a n = a"

fun fgt :: "pyfloat \<Rightarrow> pyfloat \<Rightarrow> bool" where
  \<comment> \<open>\<^verbatim>\<open>a > b\<close>\<close>
  "fgt (Fin x) (Fin y) = (x > y)"
| "fgt (Inf s) (Fin y) = s"
| "fgt (Fin x) (Inf t) = (\<not> t)"
| "fgt (Inf s) (Inf t) = (s \<and> \<not> t)"
| "fgt NaN b = False"
| "fgt a NaN = False"

fun fround2 :: "pyfloat \<Rightarrow> pyfloat" where
  \<comment> \<open>\<^verbatim>\<open>round(a, 2)\<close>: the exact value of the double is rounded to two decimals, a tie going
     to the even digit, and the double nearest to that decimal is returned; an infinity or
     a NaN is returned as it is\<close>
  "fround2 (Fin x) = float_of (of_int (round_half_even (x * 100)) / 100)"
| "fround2 a = a"

subsection \<open>Truthiness\<close>

definition or_str :: "string option \<Rightarrow> string option \<Rightarrow> string option" where
  \<comment> \<open>\<^verbatim>\<open>a or b\<close> on \<^verbatim>\<open>Optional[str]\<close>: \<^verbatim>\<open>None\<close> and the empty string are false\<close>
  "or_str a b = (case a of Some (c # cs) \<Rightarrow> a | _ \<Rightarrow> b)"

definition or_dict :: "('k \<times> 'v) list option \<Rightarrow> ('k \<times> 'v) list option \<Rightarrow> ('k \<times> 'v) list option" where
  \<comment> \<open>\<^verbatim>\<open>a or b\<close> on \<^verbatim>\<open>Optional[Dict]\<close>: \<^verbatim>\<open>None\<close> and the empty dictionary are false\<close>
  "or_dict a b = (case a of Some (kv # kvs) \<Rightarrow> a | _ \<Rightarrow> b)"

section \<open>The data model\<close>

record DetectedSubscription =
  merchant_name :: string
  service_name :: "string option"
  amount :: rat
  billing_cycle :: string
  category :: string
  confidence_score :: rat
  detection_source :: string
  last_transaction_date :: "datetime option"
  next_billing_date :: "datetime option"
  cancellation_info :: "(string \<times> string) list option"
  plaid_stream_id :: "string option"

section \<open>Merchant taxonomy and classifier\<close>

record pattern_group =
  patterns :: "rx list"
  group_category :: string
  typical_amounts :: "rat list"

definition subscription_patterns :: "(string \<times> pattern_group) list" where
  \<comment> \<open>\<^verbatim>\<open>_load_subscription_patterns\<close>: the dictionary in insertion order, as \<^verbatim>\<open>.items()\<close>
     yields it. The pattern \<^verbatim>\<open>disney\+?\<close> is \<open>disney\<close> with an optional \<open>+\<close>, and
     \<^verbatim>\<open>box\.com\<close> is the literal \<open>box.com\<close>.\<close>
  "subscription_patterns =
    [(''streaming'',
      \<lparr>patterns = [lit ''netflix'', lit ''spotify'', lit ''apple music'', lit ''amazon prime'',
          lit ''hulu'', Seq (lit ''disney'') (opt (Chr ((=) CHR ''+''))), lit ''hbo'',
          lit ''paramount'', lit ''peacock''],
       group_category = ''entertainment'',
       typical_amounts = [999 / 100, 1299 / 100, 1549 / 100, 1999 / 100]\<rparr>),
     (''productivity'',
      \<lparr>patterns = [lit ''microsoft 365'', lit ''office 365'', lit ''adobe'', lit ''dropbox'',
          lit ''google workspace'', lit ''slack'', lit ''zoom'', lit ''notion''],
       group_category = ''productivity'',
       typical_amounts = [999 / 100, 1999 / 100, 2999 / 100, 9999 / 100]\<rparr>),
     (''cloud_storage'',
      \<lparr>patterns = [lit ''icloud'', lit ''google drive'', lit ''onedrive'', lit ''dropbox'',
          lit ''box.com'', lit ''mega''],
       group_category = ''cloud_storage'',
       typical_amounts = [99 / 100, 299 / 100, 999 / 100, 1999 / 100]\<rparr>),
     (''fitness'',
      \<lparr>patterns = [lit ''peloton'', lit ''fitbit'', lit ''myfitnesspal'', lit ''strava'',
          lit ''nike training'', lit ''apple fitness''],
       group_category = ''fitness'',
       typical_amounts = [999 / 100, 1499 / 100, 3999 / 100]\<rparr>),
     (''news'',
      \<lparr>patterns = [lit ''new york times'', lit ''washington post'', lit ''wall street journal'',
          lit ''the economist'', lit ''medium'', lit ''substack''],
       group_category = ''news'',
       typical_amounts = [499 / 100, 999 / 100, 1999 / 100, 3999 / 100]\<rparr>)]"

definition group_matches :: "string \<Rightarrow> string \<times> pattern_group \<Rightarrow> bool" where
  \<comment> \<open>some pattern of the group is found in the text\<close>
  "group_matches text kd = list_ex (\<lambda>p. re_search p text \<noteq> None) (patterns (snd kd))"

definition subscription_indicators :: "string list" where
  "subscription_indicators = [''subscription'', ''monthly'', ''premium'', ''pro'', ''plus'']"

definition classify_merchant :: "string \<Rightarrow> string \<times> rat" where
  \<comment> \<open>\<^verbatim>\<open>_classify_merchant\<close>. The loop variable \<^verbatim>\<open>category\<close> that the source returns is the
     key of the dictionary entry (\<^verbatim>\<open>for category, data in ....items()\<close>), not the entry's
     \<^verbatim>\<open>'category'\<close> field.\<close>
  "classify_merchant name =
     (let merchant_lower = lower name in
      case find (group_matches merchant_lower) subscription_patterns of
        Some (key, data) \<Rightarrow> (key, 9 / 10)
      | None \<Rightarrow>
          if list_ex (\<lambda>indicator. contains indicator merchant_lower) subscription_indicators
          then (''unknown'', 6 / 10)
          else (''unknown'', 3 / 10))"

definition service_names :: "(string \<times> string) list" where
  "service_names =
    [(''netflix'', ''Netflix''), (''spotify'', ''Spotify''), (''adobe'', ''Adobe Creative Cloud''),
     (''microsoft'', ''Microsoft 365''), (''apple'', ''Apple Services''),
     (''google'', ''Google Workspace''), (''amazon'', ''Amazon Prime'')]"

definition get_service_name :: "string \<Rightarrow> string option" where
  \<comment> \<open>\<^verbatim>\<open>_get_service_name\<close>\<close>
  "get_service_name name =
     map_option snd (find (\<lambda>(key, n). contains key (lower name)) service_names)"

definition cancellation_table :: "(string \<times> (string \<times> string) list) list" where
  "cancellation_table =
    [(''netflix'',
      [(''method'', ''web''), (''url'', ''https://www.netflix.com/account''),
       (''instructions'', ''Sign in to your account and go to Account settings'')]),
     (''spotify'',
      [(''method'', ''web''), (''url'', ''https://www.spotify.com/account/subscription/''),
       (''instructions'', ''Log in and manage your subscription'')]),
     (''adobe'',
      [(''method'', ''web''), (''url'', ''https://account.adobe.com/plans''),
       (''instructions'', ''Sign in to Adobe account and manage plans'')])]"

definition get_cancellation_info :: "string \<Rightarrow> (string \<times> string) list option" where
  \<comment> \<open>\<^verbatim>\<open>_get_cancellation_info\<close>\<close>
  "get_cancellation_info name =
     map_option snd (find (\<lambda>(key, info). contains key (lower name)) cancellation_table)"

section \<open>Recurring pattern detector\<close>

record transaction =
  tx_merchant_name :: string    \<comment> \<open>\<^verbatim>\<open>transaction.get('merchant_name', '')\<close>\<close>
  tx_amount :: rat    \<comment> \<open>\<^verbatim>\<open>float(transaction.get('amount', 0))\<close>\<close>
  tx_date :: nat    \<comment> \<open>the day that \<^verbatim>\<open>strptime(transaction['date'], '%Y-%m-%d')\<close> denotes\<close>
  tx_transaction_id :: string
  tx_account_id :: string

record entry =
  e_amount :: rat
  e_date :: nat
  e_transaction_id :: string
  e_account_id :: string

record pattern_result =
  p_billing_cycle :: string
  p_average_amount :: rat
  p_interval_consistency :: rat
  p_last_transaction_date :: datetime
  p_transaction_count :: nat

record recurring_data =
  r_merchant_name :: string
  r_pattern :: pattern_result
  r_category :: string
  r_confidence :: rat
  r_transactions :: "entry list"

definition amount_consistency :: "entry list \<Rightarrow> rat" where
  \<comment> \<open>\<^verbatim>\<open>len(set(amounts)) / len(amounts)\<close>\<close>
  "amount_consistency ts =
     of_nat (length (remdups (map e_amount ts))) / of_nat (length (map e_amount ts))"

definition intervals_of :: "nat list \<Rightarrow> int list" where
  \<comment> \<open>\<^verbatim>\<open>(dates[i] - dates[i-1]).days\<close> for \<open>i\<close> from 1\<close>
  "intervals_of dates = map (\<lambda>i. int (dates ! i) - int (dates ! (i - 1))) [1..<length dates]"

definition avg_interval :: "entry list \<Rightarrow> rat" where
  \<comment> \<open>\<^verbatim>\<open>sum(intervals) / len(intervals)\<close>\<close>
  "avg_interval ts =
     of_int (sum_list (intervals_of (map e_date ts))) /
     of_nat (length (intervals_of (map e_date ts)))"

definition cycle_of_interval :: "rat \<Rightarrow> string option" where
  "cycle_of_interval avg =
     (if 25 \<le> avg \<and> avg \<le> 35 then Some ''monthly''
      else if 85 \<le> avg \<and> avg \<le> 95 then Some ''quarterly''
      else if 350 \<le> avg \<and> avg \<le> 375 then Some ''annual''
      else if 6 \<le> avg \<and> avg \<le> 8 then Some ''weekly''
      else None)"

definition detect_recurring_pattern :: "entry list \<Rightarrow> pattern_result option" where
  \<comment> \<open>\<^verbatim>\<open>_detect_recurring_pattern\<close>\<close>
  "detect_recurring_pattern ts =
     (if length ts < 2 then None
      else if amount_consistency ts > 3 / 10 then None
      else
        (case cycle_of_interval (avg_interval ts) of
           None \<Rightarrow> None
         | Some cycle \<Rightarrow>
             Some \<lparr>p_billing_cycle = cycle,
                   p_average_amount = sum_list (map e_amount ts) / of_nat (length (map e_amount ts)),
                   p_interval_consistency =
                     1 - of_int (Max (set (intervals_of (map e_date ts))) -
                                 Min (set (intervals_of (map e_date ts)))) / avg_interval ts,
                   p_last_transaction_date = of_day (Max (set (map e_date ts))),
                   p_transaction_count = length ts\<rparr>))"

fun group_add :: "string \<Rightarrow> entry \<Rightarrow> (string \<times> entry list) list \<Rightarrow> (string \<times> entry list) list" where
  \<comment> \<open>\<^verbatim>\<open>merchant_transactions[merchant_name].append(...)\<close>, a new key going last\<close>
  "group_add k e [] = [(k, [e])]"
| "group_add k e ((k', es) # rest) =
     (if k = k' then (k', es @ [e]) # rest else (k', es) # group_add k e rest)"

definition group_step :: "(string \<times> entry list) list \<Rightarrow> transaction \<Rightarrow> (string \<times> entry list) list" where
  "group_step groups t =
     (let name = lower (tx_merchant_name t) in
      if name = [] then groups
      else group_add name
             \<lparr>e_amount = \<bar>tx_amount t\<bar>, e_date = tx_date t,
              e_transaction_id = tx_transaction_id t, e_account_id = tx_account_id t\<rparr> groups)"

definition recurring_of_group :: "string \<times> entry list \<Rightarrow> recurring_data list" where
  \<comment> \<open>the body of the second loop of \<^verbatim>\<open>_analyze_recurring_transactions\<close>\<close>
  "recurring_of_group g =
     (let merchant = fst g; transactions_list = sort_key e_date (snd g) in
      if length (snd g) < 2 then []
      else
        (case detect_recurring_pattern transactions_list of
           None \<Rightarrow> []
         | Some pat \<Rightarrow>
             (let cc = classify_merchant merchant in
              if snd cc > 7 / 10
              then [\<lparr>r_merchant_name = merchant, r_pattern = pat, r_category = fst cc,
                     r_confidence = snd cc, r_transactions = transactions_list\<rparr>]
              else [])))"

definition analyze_recurring_transactions :: "transaction list \<Rightarrow> recurring_data list" where
  \<comment> \<open>\<^verbatim>\<open>_analyze_recurring_transactions\<close>\<close>
  "analyze_recurring_transactions txs =
     concat (map recurring_of_group (foldl group_step [] txs))"

definition next_date_of_cycle :: "datetime \<Rightarrow> string \<Rightarrow> error + datetime option" where
  "next_date_of_cycle last_date cycle =
     (if cycle = ''monthly'' then map_sum id Some (dt_add_days last_date 30)
      else if cycle = ''quarterly'' then map_sum id Some (dt_add_days last_date 90)
      else if cycle = ''annual'' then map_sum id Some (dt_add_days last_date 365)
      else if cycle = ''weekly'' then map_sum id Some (dt_add_days last_date 7)
      else Inr None)"

definition create_subscription_from_transaction :: "recurring_data \<Rightarrow> DetectedSubscription option" where
  \<comment> \<open>\<^verbatim>\<open>_create_subscription_from_transaction\<close>; an exception inside is caught and gives \<^verbatim>\<open>None\<close>\<close>
  "create_subscription_from_transaction rd =
     (let pat = r_pattern rd in
      case next_date_of_cycle (p_last_transaction_date pat) (p_billing_cycle pat) of
        Inl e \<Rightarrow> None
      | Inr next_date \<Rightarrow>
          Some \<lparr>merchant_name = title (r_merchant_name rd),
                service_name = get_service_name (r_merchant_name rd),
                amount = p_average_amount pat,
                billing_cycle = p_billing_cycle pat,
                category = r_category rd,
                confidence_score = r_confidence rd * p_interval_consistency pat,
                detection_source = ''bank'',
                last_transaction_date = Some (p_last_transaction_date pat),
                next_billing_date = next_date,
                cancellation_info = get_cancellation_info (r_merchant_name rd),
                plaid_stream_id = None\<rparr>)"

section \<open>Email signal extractor\<close>

subsection \<open>The extractor behind \<^verbatim>\<open>discover_subscriptions_from_email\<close>\<close>

definition number_group :: rx where
  \<comment> \<open>\<^verbatim>\<open>(\d+\.?\d*)\<close>\<close>
  "number_group = Grp (seqs [rep1 is_digit, opt (Chr ((=) CHR ''.'')), Rep is_digit])"

definition colon_or_space :: "char \<Rightarrow> bool" where
  \<comment> \<open>\<^verbatim>\<open>[:\s]\<close>\<close>
  "colon_or_space c = (c = CHR '':'' \<or> is_space c)"

definition keyword_amount :: "string \<Rightarrow> rx" where
  \<comment> \<open>\<^verbatim>\<open>keyword[:\s]*\$?(\d+\.?\d*)\<close>\<close>
  "keyword_amount kw =
     seqs [lit_i kw, Rep colon_or_space, opt (Chr ((=) CHR ''$'')), number_group]"

definition text_amount_patterns :: "rx list" where
  \<comment> \<open>the list \<^verbatim>\<open>patterns\<close> of \<^verbatim>\<open>_extract_amount_from_text\<close>, used with \<^verbatim>\<open>re.IGNORECASE\<close>\<close>
  "text_amount_patterns =
    [Seq (Chr ((=) CHR ''$'')) number_group,
     seqs [number_group, Rep is_space,
           Alt (lit_i ''usd'') (Seq (lit_i ''dollar'') (opt (lit_i ''s'')))],
     keyword_amount ''amount'', keyword_amount ''total'',
     keyword_amount ''charged'', keyword_amount ''billed'']"

fun amount_from_patterns :: "rx list \<Rightarrow> string \<Rightarrow> rat option" where
  \<comment> \<open>the loop of \<^verbatim>\<open>_extract_amount_from_text\<close>: only \<^verbatim>\<open>matches[0]\<close> of a pattern is looked at\<close>
  "amount_from_patterns [] text = None"
| "amount_from_patterns (p # ps) text =
     (case re_findall p text of
        [] \<Rightarrow> amount_from_patterns ps text
      | m # ms \<Rightarrow>
          (case to_float m of
             None \<Rightarrow> amount_from_patterns ps text
           | Some a \<Rightarrow>
               if 99 / 100 \<le> a \<and> a \<le> 99999 / 100 then Some a
               else amount_from_patterns ps text))"

definition extract_amount_from_text :: "string \<Rightarrow> rat option" where
  \<comment> \<open>\<^verbatim>\<open>_extract_amount_from_text\<close>\<close>
  "extract_amount_from_text text = amount_from_patterns text_amount_patterns text"

definition contains_any :: "string list \<Rightarrow> string \<Rightarrow> bool" where
  \<comment> \<open>\<^verbatim>\<open>any(word in text for word in words)\<close>\<close>
  "contains_any ws text = list_ex (\<lambda>w. contains w text) ws"

definition cycle_keyword :: "string \<Rightarrow> string option" where
  "cycle_keyword text =
     (if contains_any [''monthly'', ''month'', ''/mo''] text then Some ''monthly''
      else if contains_any [''annual'', ''yearly'', ''year'', ''/yr''] text then Some ''annual''
      else if contains_any [''weekly'', ''week''] text then Some ''weekly''
      else if contains_any [''quarterly'', ''quarter''] text then Some ''quarterly''
      else None)"

definition extract_billing_cycle_from_text :: "string \<Rightarrow> string" where
  \<comment> \<open>\<^verbatim>\<open>_extract_billing_cycle_from_text\<close>\<close>
  "extract_billing_cycle_from_text text =
     (case cycle_keyword text of Some c \<Rightarrow> c | None \<Rightarrow> ''monthly'')"

definition cycle_days :: "string \<Rightarrow> nat" where
  \<comment> \<open>\<^verbatim>\<open>cycle_days.get(cycle, 30)\<close>\<close>
  "cycle_days cycle =
     (if cycle = ''weekly'' then 7 else if cycle = ''monthly'' then 30
      else if cycle = ''quarterly'' then 90 else if cycle = ''annual'' then 365 else 30)"

definition calculate_next_billing_date_from_cycle :: "datetime \<Rightarrow> string \<Rightarrow> error + datetime" where
  \<comment> \<open>\<^verbatim>\<open>_calculate_next_billing_date_from_cycle\<close>\<close>
  "calculate_next_billing_date_from_cycle last_date cycle = dt_add_days last_date (cycle_days cycle)"

definition sender_prefix :: rx where
  \<comment> \<open>\<^verbatim>\<open>^(no-?reply|support|billing|noreply)@?\<close> with \<^verbatim>\<open>re.IGNORECASE\<close>\<close>
  "sender_prefix =
     seqs [Bol,
           Grp (alts [seqs [lit_i ''no'', opt (Chr ((=) CHR ''-'')), lit_i ''reply''],
                      lit_i ''support'', lit_i ''billing'', lit_i ''noreply'']),
           opt (Chr ((=) CHR ''@''))]"

definition generic_domains :: "string list" where
  "generic_domains = [''gmail'', ''yahoo'', ''hotmail'', ''outlook'', ''mail'']"

definition merchant_from_domain :: "string \<Rightarrow> string option" where
  \<comment> \<open>the fallback of \<^verbatim>\<open>_extract_merchant_from_sender\<close>: \<^verbatim>\<open>re.search(r'@([^.]+)', sender)\<close>\<close>
  "merchant_from_domain sender =
     (case re_search (Seq (Chr ((=) CHR ''@'')) (Grp (rep1 (\<lambda>c. c \<noteq> CHR ''.'')))) sender of
        Some (i, j, Some domain) \<Rightarrow>
          if lower domain \<in> set generic_domains then None else Some (title domain)
      | _ \<Rightarrow> None)"

definition clean_sender_name :: "string \<Rightarrow> string" where
  "clean_sender_name raw =
     strip (re_sub (rep1 is_space) '' ''
              (re_sub sender_prefix [] (strip_chr CHR 0x22 (strip raw))))"

definition extract_merchant_from_sender :: "string \<Rightarrow> string option" where
  \<comment> \<open>\<^verbatim>\<open>_extract_merchant_from_sender\<close>; the first pattern is \<^verbatim>\<open>^([^<]+)\<close>\<close>
  "extract_merchant_from_sender sender =
     (if sender = [] then None
      else
        (case re_match (Seq Bol (Grp (rep1 (\<lambda>c. c \<noteq> CHR ''<'')))) sender of
           Some (j, Some raw) \<Rightarrow>
             (let name = clean_sender_name raw in
              if length name > 2 then Some name else merchant_from_domain sender)
         | _ \<Rightarrow> merchant_from_domain sender))"

definition subject_patterns :: "rx list" where
  \<comment> \<open>the list \<^verbatim>\<open>patterns\<close> of \<^verbatim>\<open>_extract_merchant_from_subject\<close>, used with \<^verbatim>\<open>re.IGNORECASE\<close>\<close>
  "subject_patterns =
    [seqs [lit_i ''your'', rep1 is_space, Grp (rep1 is_alpha), rep1 is_space,
           alts [lit_i ''subscription'', lit_i ''bill'', lit_i ''invoice'']],
     seqs [Grp (rep1 is_alpha), rep1 is_space,
           alts [lit_i ''premium'', lit_i ''pro'', lit_i ''plus'', lit_i ''subscription'']],
     seqs [lit_i ''thank you for choosing'', rep1 is_space, Grp (rep1 is_alpha)],
     seqs [lit_i ''welcome to'', rep1 is_space, Grp (rep1 is_alpha)]]"

fun merchant_from_subject_patterns :: "rx list \<Rightarrow> string \<Rightarrow> string option" where
  "merchant_from_subject_patterns [] subject = None"
| "merchant_from_subject_patterns (p # ps) subject =
     (case re_search p subject of
        Some (i, j, Some g) \<Rightarrow>
          if length (strip g) > 2 then Some (strip g)
          else merchant_from_subject_patterns ps subject
      | _ \<Rightarrow> merchant_from_subject_patterns ps subject)"

definition extract_merchant_from_subject :: "string \<Rightarrow> string option" where
  \<comment> \<open>\<^verbatim>\<open>_extract_merchant_from_subject\<close>\<close>
  "extract_merchant_from_subject subject =
     (if subject = [] then None else merchant_from_subject_patterns subject_patterns subject)"

definition extracted_merchant :: "string \<Rightarrow> string \<Rightarrow> string option" where
  \<comment> \<open>the merchant name that \<^verbatim>\<open>_extract_subscription_info_from_email\<close> works with\<close>
  "extracted_merchant subject sender =
     (case extract_merchant_from_sender sender of
        Some (c # cs) \<Rightarrow> Some (c # cs)
      | _ \<Rightarrow> extract_merchant_from_subject subject)"

record subscription_info =
  i_merchant_name :: string
  i_service_name :: "string option"
  i_amount :: rat
  i_billing_cycle :: string
  i_category :: string
  i_confidence_score :: rat
  i_next_billing_date :: "datetime option"
  i_cancellation_info :: "(string \<times> string) list option"

definition email_next_billing_date :: "datetime option \<Rightarrow> string \<Rightarrow> error + datetime option" where
  \<comment> \<open>\<^verbatim>\<open>if date and billing_cycle: next_billing_date = ...\<close>\<close>
  "email_next_billing_date date cycle =
     (case date of
        None \<Rightarrow> Inr None
      | Some d \<Rightarrow>
          if cycle = [] then Inr None
          else map_sum id Some (calculate_next_billing_date_from_cycle d cycle))"

definition extract_subscription_info_from_email ::
  "string \<Rightarrow> string \<Rightarrow> string \<Rightarrow> datetime option \<Rightarrow> subscription_info option" where
  \<comment> \<open>\<^verbatim>\<open>_extract_subscription_info_from_email\<close>; an exception inside is caught and gives \<^verbatim>\<open>None\<close>\<close>
  "extract_subscription_info_from_email subject sender body date =
     (let full_text = lower (subject @ '' '' @ sender @ '' '' @ body) in
      case extracted_merchant subject sender of
        None \<Rightarrow> None
      | Some [] \<Rightarrow> None
      | Some name \<Rightarrow>
          (case extract_amount_from_text full_text of
             None \<Rightarrow> None
           | Some amt \<Rightarrow>
               if amt = 0 then None
               else
                 (let cycle = extract_billing_cycle_from_text full_text;
                      cc = classify_merchant name;
                      confidence = min (snd cc + 1 / 10) 1 in
                  case email_next_billing_date date cycle of
                    Inl e \<Rightarrow> None
                  | Inr next_date \<Rightarrow>
                      Some \<lparr>i_merchant_name = title name,
                            i_service_name = get_service_name name,
                            i_amount = amt,
                            i_billing_cycle = cycle,
                            i_category = fst cc,
                            i_confidence_score = confidence,
                            i_next_billing_date = next_date,
                            i_cancellation_info = get_cancellation_info name\<rparr>)))"

definition analyze_email_for_subscription ::
  "string \<Rightarrow> string \<Rightarrow> datetime option \<Rightarrow> string \<Rightarrow> DetectedSubscription option" where
  \<comment> \<open>\<^verbatim>\<open>_analyze_email_for_subscription\<close>, from the point where the headers, the parsed
     \<^verbatim>\<open>Date\<close> and the plain-text body of the fetched message are at hand\<close>
  "analyze_email_for_subscription subject sender message_date body_text =
     (case extract_subscription_info_from_email subject sender body_text message_date of
        None \<Rightarrow> None
      | Some info \<Rightarrow>
          Some \<lparr>merchant_name = i_merchant_name info,
                service_name = i_service_name info,
                amount = i_amount info,
                billing_cycle = i_billing_cycle info,
                category = i_category info,
                confidence_score = i_confidence_score info,
                detection_source = ''email'',
                last_transaction_date = message_date,
                next_billing_date = i_next_billing_date info,
                cancellation_info = i_cancellation_info info,
                plaid_stream_id = None\<rparr>)"

subsection \<open>The earlier extractor \<^verbatim>\<open>_extract_subscription_from_email\<close>\<close>

text \<open>
  The class body defines \<^verbatim>\<open>discover_subscriptions_from_email\<close> twice. The second definition
  replaces the first, which was the only caller of \<^verbatim>\<open>_extract_subscription_from_email\<close>; the
  method itself and its helpers remain in the class.
\<close>

definition email_amount_patterns :: "rx list" where
  \<comment> \<open>\<^verbatim>\<open>email_patterns['amount_patterns']\<close>, used with \<^verbatim>\<open>re.IGNORECASE\<close>\<close>
  "email_amount_patterns =
    [Seq (Chr ((=) CHR ''$'')) number_group,
     seqs [number_group, Rep is_space, lit_i ''usd''],
     keyword_amount ''total'']"

fun amount_from_email_patterns :: "rx list \<Rightarrow> string \<Rightarrow> rat option" where
  "amount_from_email_patterns [] body = None"
| "amount_from_email_patterns (p # ps) body =
     (case re_search p body of
        Some (i, j, Some g) \<Rightarrow>
          (case to_float g of
             Some a \<Rightarrow> Some a
           | None \<Rightarrow> amount_from_email_patterns ps body)
      | _ \<Rightarrow> amount_from_email_patterns ps body)"

definition extract_amount_from_email :: "string \<Rightarrow> rat option" where
  \<comment> \<open>\<^verbatim>\<open>_extract_amount_from_email\<close>\<close>
  "extract_amount_from_email body = amount_from_email_patterns email_amount_patterns body"

definition extract_billing_cycle_from_email :: "string \<Rightarrow> string option" where
  \<comment> \<open>\<^verbatim>\<open>_extract_billing_cycle_from_email\<close>\<close>
  "extract_billing_cycle_from_email body = cycle_keyword (lower body)"

definition webmail_domains :: "string list" where
  "webmail_domains = [''gmail'', ''yahoo'', ''outlook'', ''hotmail'']"

definition merchant_from_sender_domain :: "string \<Rightarrow> string option" where
  \<comment> \<open>the first half of \<^verbatim>\<open>_extract_merchant_from_email\<close>\<close>
  "merchant_from_sender_domain sender =
     (if CHR ''@'' \<in> set sender
      then (let domain_parts = split_on CHR ''.'' (lower (split_on CHR ''@'' sender ! 1)) in
            if length domain_parts \<ge> 2
            then (let merchant = domain_parts ! (length domain_parts - 2) in
                  if merchant \<in> set webmail_domains then None else Some (title merchant))
            else None)
      else None)"

fun first_group0 :: "rx list \<Rightarrow> string \<Rightarrow> string option" where
  \<comment> \<open>\<^verbatim>\<open>match.group(0)\<close> of the first pattern found in the text\<close>
  "first_group0 [] text = None"
| "first_group0 (p # ps) text =
     (case re_search p text of
        Some (i, j, g) \<Rightarrow> Some (take (j - i) (drop i text))
      | None \<Rightarrow> first_group0 ps text)"

definition extract_merchant_from_email :: "string \<Rightarrow> string \<Rightarrow> string \<Rightarrow> string option" where
  \<comment> \<open>\<^verbatim>\<open>_extract_merchant_from_email\<close>\<close>
  "extract_merchant_from_email sender subject body =
     (case merchant_from_sender_domain sender of
        Some m \<Rightarrow> Some m
      | None \<Rightarrow>
          map_option title
            (first_group0 (concat (map (\<lambda>kd. patterns (snd kd)) subscription_patterns))
               (lower subject)))"

definition extract_subscription_from_email ::
  "string \<Rightarrow> string \<Rightarrow> string \<Rightarrow> DetectedSubscription option" where
  \<comment> \<open>\<^verbatim>\<open>_extract_subscription_from_email\<close>, from the point where the \<^verbatim>\<open>Subject\<close> and
     \<^verbatim>\<open>From\<close> headers and the body are at hand\<close>
  "extract_subscription_from_email subject sender body =
     (case extract_merchant_from_email sender subject body of
        None \<Rightarrow> None
      | Some [] \<Rightarrow> None
      | Some name \<Rightarrow>
          (case extract_amount_from_email body of
             None \<Rightarrow> None
           | Some amt \<Rightarrow>
               if amt = 0 then None
               else
                 Some \<lparr>merchant_name = name,
                       service_name = get_service_name name,
                       amount = amt,
                       billing_cycle =
                         (case extract_billing_cycle_from_email body of
                            Some (c # cs) \<Rightarrow> c # cs
                          | _ \<Rightarrow> ''monthly''),
                       category = fst (classify_merchant name),
                       confidence_score = snd (classify_merchant name) * (8 / 10),
                       detection_source = ''email'',
                       last_transaction_date = None,
                       next_billing_date = None,
                       cancellation_info = get_cancellation_info name,
                       plaid_stream_id = None\<rparr>))"

section \<open>Merge engine\<close>

subsection \<open>\<^verbatim>\<open>_merge_subscription_sources\<close>, used by \<^verbatim>\<open>discover_all_subscriptions\<close>\<close>

definition variations :: "(string \<times> string list) list" where
  "variations =
    [(''netflix'', [''netflix.com'', ''netflix inc'']),
     (''spotify'', [''spotify.com'', ''spotify ab'']),
     (''amazon'', [''amazon.com'', ''amzn'', ''amazon prime'']),
     (''apple'', [''apple.com'', ''itunes'', ''app store'']),
     (''google'', [''google.com'', ''youtube'', ''google play'']),
     (''microsoft'', [''microsoft.com'', ''msft'', ''office 365''])]"

definition names_variation :: "string \<Rightarrow> string \<times> string list \<Rightarrow> bool" where
  \<comment> \<open>\<^verbatim>\<open>base_name in name or any(v in name for v in variants)\<close>\<close>
  "names_variation name bv = (contains (fst bv) name \<or> contains_any (snd bv) name)"

definition are_subscriptions_duplicate :: "DetectedSubscription \<Rightarrow> DetectedSubscription \<Rightarrow> bool" where
  \<comment> \<open>\<^verbatim>\<open>_are_subscriptions_duplicate\<close>\<close>
  "are_subscriptions_duplicate sub1 sub2 =
     (let name1 = strip (lower (merchant_name sub1));
          name2 = strip (lower (merchant_name sub2)) in
      if name1 = name2 then True
      else if contains name1 name2 \<or> contains name2 name1 then True
      else if list_ex (\<lambda>bv. names_variation name1 bv \<and> names_variation name2 bv) variations
      then True
      else if \<bar>amount sub1 - amount sub2\<bar> \<le> 1
              \<and> billing_cycle sub1 = billing_cycle sub2 \<and> category sub1 = category sub2
      then True
      else False)"

definition or_min :: "datetime option \<Rightarrow> datetime" where
  \<comment> \<open>\<^verbatim>\<open>d or datetime.min.replace(tzinfo=None)\<close>\<close>
  "or_min d = (case d of None \<Rightarrow> datetime_min | Some x \<Rightarrow> x)"

definition or_date :: "datetime option \<Rightarrow> datetime option \<Rightarrow> datetime option" where
  \<comment> \<open>\<^verbatim>\<open>a or b\<close> on \<^verbatim>\<open>Optional[datetime]\<close>\<close>
  "or_date a b = (case a of None \<Rightarrow> b | Some x \<Rightarrow> a)"

definition longer_name :: "string \<Rightarrow> string \<Rightarrow> string" where
  \<comment> \<open>\<^verbatim>\<open>max(a, b, key=len)\<close>: the first argument unless the second is longer\<close>
  "longer_name a b = (if length b > length a then b else a)"

definition merge_duplicate_subscriptions ::
  "DetectedSubscription \<Rightarrow> DetectedSubscription \<Rightarrow> error + DetectedSubscription" where
  \<comment> \<open>\<^verbatim>\<open>_merge_duplicate_subscriptions\<close>; comparing a naive with an aware date raises\<close>
  "merge_duplicate_subscriptions sub1 sub2 =
     (let bank_sub = (if detection_source sub1 = ''bank'' then sub1 else sub2);
          email_sub = (if detection_source sub2 = ''email'' then sub2 else sub1) in
      case dt_max2 (or_min (last_transaction_date bank_sub))
                   (or_min (last_transaction_date email_sub)) of
        Inl e \<Rightarrow> Inl e
      | Inr last_date \<Rightarrow>
          Inr \<lparr>merchant_name = longer_name (merchant_name bank_sub) (merchant_name email_sub),
               service_name = or_str (service_name email_sub) (service_name bank_sub),
               amount = (if detection_source bank_sub = ''bank'' then amount bank_sub
                         else amount email_sub),
               billing_cycle = (if detection_source bank_sub = ''bank'' then billing_cycle bank_sub
                                else billing_cycle email_sub),
               category = category bank_sub,
               confidence_score =
                 min (max (confidence_score bank_sub) (confidence_score email_sub) + 1 / 10) 1,
               detection_source = ''both'',
               last_transaction_date = (if last_date = datetime_min then None else Some last_date),
               next_billing_date = or_date (next_billing_date bank_sub) (next_billing_date email_sub),
               cancellation_info = or_dict (cancellation_info bank_sub) (cancellation_info email_sub),
               plaid_stream_id = (if detection_source bank_sub = ''bank'' then plaid_stream_id bank_sub
                                  else None)\<rparr>)"

fun add_email_sub ::
  "DetectedSubscription \<Rightarrow> DetectedSubscription list \<Rightarrow> error + DetectedSubscription list" where
  \<comment> \<open>the inner loop: the first duplicate in \<^verbatim>\<open>merged\<close> is replaced by the merge, and a
     subscription without a duplicate is appended\<close>
  "add_email_sub email_sub [] = Inr [email_sub]"
| "add_email_sub email_sub (existing_sub # rest) =
     (if are_subscriptions_duplicate existing_sub email_sub
      then (case merge_duplicate_subscriptions existing_sub email_sub of
              Inl e \<Rightarrow> Inl e
            | Inr m \<Rightarrow> Inr (m # rest))
      else (case add_email_sub email_sub rest of
              Inl e \<Rightarrow> Inl e
            | Inr rest' \<Rightarrow> Inr (existing_sub # rest')))"

fun add_email_subs ::
  "DetectedSubscription list \<Rightarrow> DetectedSubscription list \<Rightarrow> error + DetectedSubscription list" where
  "add_email_subs merged [] = Inr merged"
| "add_email_subs merged (email_sub # rest) =
     (case add_email_sub email_sub merged of
        Inl e \<Rightarrow> Inl e
      | Inr merged' \<Rightarrow> add_email_subs merged' rest)"

definition key_greater :: "DetectedSubscription \<Rightarrow> DetectedSubscription \<Rightarrow> bool" where
  \<comment> \<open>the key \<^verbatim>\<open>(x.confidence_score, float(x.amount))\<close> of \<open>a\<close> is greater than that of \<open>b\<close>\<close>
  "key_greater a b =
     (confidence_score a > confidence_score b
      \<or> (confidence_score a = confidence_score b \<and> amount a > amount b))"

fun insert_desc :: "DetectedSubscription \<Rightarrow> DetectedSubscription list \<Rightarrow> DetectedSubscription list" where
  "insert_desc x [] = [x]"
| "insert_desc x (y # ys) = (if key_greater y x then y # insert_desc x ys else x # y # ys)"

definition sort_desc :: "DetectedSubscription list \<Rightarrow> DetectedSubscription list" where
  \<comment> \<open>\<^verbatim>\<open>merged.sort(key=..., reverse=True)\<close>: descending, equal keys keeping their order\<close>
  "sort_desc xs = foldr insert_desc xs []"

definition merge_subscription_sources ::
  "DetectedSubscription list \<Rightarrow> DetectedSubscription list \<Rightarrow> error + DetectedSubscription list" where
  \<comment> \<open>\<^verbatim>\<open>_merge_subscription_sources\<close>\<close>
  "merge_subscription_sources bank_subs email_subs =
     (case add_email_subs bank_subs email_subs of
        Inl e \<Rightarrow> Inl e
      | Inr merged \<Rightarrow> Inr (sort_desc merged))"

subsection \<open>\<^verbatim>\<open>merge_detected_subscriptions\<close>, used by the \<^verbatim>\<open>/discover-subscriptions\<close> route\<close>

definition merge_subscription_data ::
  "DetectedSubscription \<Rightarrow> DetectedSubscription \<Rightarrow> DetectedSubscription" where
  \<comment> \<open>\<^verbatim>\<open>_merge_subscription_data\<close>\<close>
  "merge_subscription_data bank_sub email_sub =
     \<lparr>merchant_name = merchant_name bank_sub,
      service_name = or_str (service_name email_sub) (service_name bank_sub),
      amount = amount bank_sub,
      billing_cycle = billing_cycle bank_sub,
      category = category bank_sub,
      confidence_score = min (confidence_score bank_sub + 1 / 10) 1,
      detection_source = ''both'',
      last_transaction_date = last_transaction_date bank_sub,
      next_billing_date = next_billing_date bank_sub,
      cancellation_info = or_dict (cancellation_info email_sub) (cancellation_info bank_sub),
      plaid_stream_id = None\<rparr>"

definition merge_bank_sub ::
  "DetectedSubscription list \<Rightarrow> DetectedSubscription \<Rightarrow> DetectedSubscription" where
  \<comment> \<open>the body of the first loop of \<^verbatim>\<open>merge_detected_subscriptions\<close>\<close>
  "merge_bank_sub email_subscriptions bank_sub =
     (case find (\<lambda>email_sub. lower (merchant_name email_sub) = lower (merchant_name bank_sub))
             email_subscriptions of
        Some matching_email \<Rightarrow> merge_subscription_data bank_sub matching_email
      | None \<Rightarrow> bank_sub)"

definition merge_detected_subscriptions ::
  "DetectedSubscription list \<Rightarrow> DetectedSubscription list \<Rightarrow> DetectedSubscription list" where
  \<comment> \<open>\<^verbatim>\<open>merge_detected_subscriptions\<close>\<close>
  "merge_detected_subscriptions bank_subscriptions email_subscriptions =
     map (merge_bank_sub email_subscriptions) bank_subscriptions @
     filter (\<lambda>email_sub. lower (merchant_name email_sub)
                \<notin> set (map (\<lambda>b. lower (merchant_name b)) bank_subscriptions))
       email_subscriptions"

section \<open>Analytics engine\<close>

datatype trials = Trial_List "DetectedSubscription list" | Trial_Count nat

record analysis =
  total_monthly :: pyfloat
  total_annual :: pyfloat
  category_breakdown :: "(string \<times> nat \<times> pyfloat) list"
  billing_cycle_breakdown :: "(string \<times> nat) list"
  average_subscription :: pyfloat
  highest_subscription :: "(string \<times> pyfloat \<times> string) option"
  subscription_count :: "nat option"
  unused_trials :: trials

definition totals_step :: "pyfloat \<times> pyfloat \<Rightarrow> DetectedSubscription \<Rightarrow> pyfloat \<times> pyfloat" where
  \<comment> \<open>the body of the loop over \<^verbatim>\<open>monthly_total\<close> and \<^verbatim>\<open>annual_total\<close>, with
     \<^verbatim>\<open>amount = float(sub.amount)\<close>; it has no \<^verbatim>\<open>else\<close>\<close>
  "totals_step acc sub =
     (let monthly_total = fst acc; annual_total = snd acc; amt = float_of (amount sub) in
      if billing_cycle sub = ''monthly''
      then (fadd monthly_total amt, fadd annual_total (fmul amt (Fin 12)))
      else if billing_cycle sub = ''annual''
      then (fadd monthly_total (fdiv_int amt 12), fadd annual_total amt)
      else if billing_cycle sub = ''weekly''
      then (fadd monthly_total (fmul amt (float_of (433 / 100))),
            fadd annual_total (fmul amt (Fin 52)))
      else if billing_cycle sub = ''quarterly''
      then (fadd monthly_total (fdiv_int amt 3), fadd annual_total (fmul amt (Fin 4)))
      else (monthly_total, annual_total))"

definition monthly_cost :: "DetectedSubscription \<Rightarrow> pyfloat" where
  \<comment> \<open>the monthly cost in the category breakdown, which defaults to the amount\<close>
  "monthly_cost sub =
     (let amt = float_of (amount sub) in
      if billing_cycle sub = ''monthly'' then amt
      else if billing_cycle sub = ''annual'' then fdiv_int amt 12
      else if billing_cycle sub = ''weekly'' then fmul amt (float_of (433 / 100))
      else if billing_cycle sub = ''quarterly'' then fdiv_int amt 3
      else amt)"

fun bump_category ::
  "string \<Rightarrow> pyfloat \<Rightarrow> (string \<times> nat \<times> pyfloat) list \<Rightarrow> (string \<times> nat \<times> pyfloat) list" where
  "bump_category c m [] = [(c, 1, fadd (Fin 0) m)]"
| "bump_category c m ((c', n, t) # rest) =
     (if c = c' then (c', n + 1, fadd t m) # rest else (c', n, t) # bump_category c m rest)"

fun bump_cycle :: "string \<Rightarrow> (string \<times> nat) list \<Rightarrow> (string \<times> nat) list" where
  "bump_cycle c [] = [(c, 1)]"
| "bump_cycle c ((c', n) # rest) =
     (if c = c' then (c', n + 1) # rest else (c', n) # bump_cycle c rest)"

fun highest_of :: "DetectedSubscription \<Rightarrow> DetectedSubscription list \<Rightarrow> DetectedSubscription" where
  \<comment> \<open>\<^verbatim>\<open>max(subscriptions, key=lambda x: float(x.amount))\<close>: the first of the greatest\<close>
  "highest_of best [] = best"
| "highest_of best (x # xs) =
     highest_of (if fgt (float_of (amount x)) (float_of (amount best)) then x else best) xs"

definition is_unused_trial :: "nat \<Rightarrow> DetectedSubscription \<Rightarrow> error + bool" where
  \<comment> \<open>the condition of the \<^verbatim>\<open>unused_trials\<close> comprehension; \<open>now\<close> is \<^verbatim>\<open>datetime.now()\<close>\<close>
  "is_unused_trial now sub =
     (if confidence_score sub < 7 / 10
      then (case last_transaction_date sub of
              None \<Rightarrow> Inr False
            | Some d \<Rightarrow>
                (case dt_sub_days (Naive now) d of
                   Inl e \<Rightarrow> Inl e
                 | Inr days \<Rightarrow> Inr (days < 30)))
      else Inr False)"

fun count_unused_trials :: "nat \<Rightarrow> DetectedSubscription list \<Rightarrow> error + nat" where
  "count_unused_trials now [] = Inr 0"
| "count_unused_trials now (sub # subs) =
     (case is_unused_trial now sub of
        Inl e \<Rightarrow> Inl e
      | Inr b \<Rightarrow>
          (case count_unused_trials now subs of
             Inl e \<Rightarrow> Inl e
           | Inr n \<Rightarrow> Inr (if b then n + 1 else n)))"

definition analyze_subscription_patterns :: "nat \<Rightarrow> DetectedSubscription list \<Rightarrow> error + analysis" where
  \<comment> \<open>\<^verbatim>\<open>_analyze_subscription_patterns\<close>\<close>
  "analyze_subscription_patterns now subscriptions =
     (case subscriptions of
        [] \<Rightarrow>
          Inr \<lparr>total_monthly = Fin 0, total_annual = Fin 0, category_breakdown = [],
               billing_cycle_breakdown = [], average_subscription = Fin 0,
               highest_subscription = None, subscription_count = None,
               unused_trials = Trial_List []\<rparr>
      | first # others \<Rightarrow>
          (let totals = foldl totals_step (Fin 0, Fin 0) subscriptions;
               highest_sub = highest_of first others in
           case count_unused_trials now subscriptions of
             Inl e \<Rightarrow> Inl e
           | Inr trial_count \<Rightarrow>
               Inr \<lparr>total_monthly = fround2 (fst totals),
                    total_annual = fround2 (snd totals),
                    category_breakdown =
                      foldl (\<lambda>b sub. bump_category (category sub) (monthly_cost sub) b) []
                        subscriptions,
                    billing_cycle_breakdown =
                      foldl (\<lambda>b sub. bump_cycle (billing_cycle sub) b) [] subscriptions,
                    average_subscription =
                      fround2 (fdiv_int (fst totals) (length subscriptions)),
                    highest_subscription =
                      Some (merchant_name highest_sub, float_of (amount highest_sub),
                            billing_cycle highest_sub),
                    subscription_count = Some (length subscriptions),
                    unused_trials = Trial_Count trial_count\<rparr>))"

section \<open>The documented policies, and sample data\<close>

definition monthly_term :: "DetectedSubscription \<Rightarrow> pyfloat list" where
  \<comment> \<open>the documented monthly equivalent of a subscription: the amount for monthly, a
     twelfth for annual, 4.33 times for weekly and a third for quarterly billing; no term
     for another cycle\<close>
  "monthly_term sub =
     (let amt = float_of (amount sub) in
      if billing_cycle sub = ''monthly'' then [amt]
      else if billing_cycle sub = ''annual'' then [fdiv_int amt 12]
      else if billing_cycle sub = ''weekly'' then [fmul amt (float_of (433 / 100))]
      else if billing_cycle sub = ''quarterly'' then [fdiv_int amt 3]
      else [])"

definition annual_term :: "DetectedSubscription \<Rightarrow> pyfloat list" where
  \<comment> \<open>the documented annual equivalent: 12 times the amount for monthly, the amount for
     annual, 52 times for weekly and 4 times for quarterly billing\<close>
  "annual_term sub =
     (let amt = float_of (amount sub) in
      if billing_cycle sub = ''monthly'' then [fmul amt (Fin 12)]
      else if billing_cycle sub = ''annual'' then [amt]
      else if billing_cycle sub = ''weekly'' then [fmul amt (Fin 52)]
      else if billing_cycle sub = ''quarterly'' then [fmul amt (Fin 4)]
      else [])"

definition float_sum :: "pyfloat list \<Rightarrow> pyfloat" where
  \<comment> \<open>the sum of the terms, added from the left in double precision\<close>
  "float_sum ts = foldl fadd (Fin 0) ts"

definition monthly_sum :: "DetectedSubscription list \<Rightarrow> pyfloat" where
  "monthly_sum subs = float_sum (concat (map monthly_term subs))"

definition annual_sum :: "DetectedSubscription list \<Rightarrow> pyfloat" where
  "annual_sum subs = float_sum (concat (map annual_term subs))"

definition descending :: "DetectedSubscription list \<Rightarrow> bool" where
  \<comment> \<open>no later element has a greater sort key than an earlier one\<close>
  "descending xs = sorted_wrt (\<lambda>a b. \<not> key_greater b a) xs"

definition candidate :: "string \<Rightarrow> rat \<Rightarrow> string \<Rightarrow> rat \<Rightarrow> string \<Rightarrow> DetectedSubscription" where
  \<comment> \<open>a subscription with the given name, amount, cycle, confidence and source\<close>
  "candidate name amt cycle conf src =
     \<lparr>merchant_name = name, service_name = None, amount = amt, billing_cycle = cycle,
      category = ''streaming'', confidence_score = conf, detection_source = src,
      last_transaction_date = None, next_billing_date = None, cancellation_info = None,
      plaid_stream_id = None\<rparr>"

definition netflix_bank :: DetectedSubscription where
  \<comment> \<open>the bank candidate \<open>{Netflix, $15.49, monthly, conf 0.9}\<close>\<close>
  "netflix_bank = candidate ''Netflix'' (1549 / 100) ''monthly'' (9 / 10) ''bank''"

definition netflix_email :: DetectedSubscription where
  \<comment> \<open>the email candidate \<open>{Netflix.com, $15.49, monthly, conf 0.8}\<close>\<close>
  "netflix_email = candidate ''Netflix.com'' (1549 / 100) ''monthly'' (8 / 10) ''email''"

definition netflix_both :: DetectedSubscription where
  "netflix_both = candidate ''Netflix.com'' (1549 / 100) ''monthly'' 1 ''both''"

definition four_monthly :: "DetectedSubscription list" where
  \<comment> \<open>four monthly subscriptions of $9.99, $12.99, $52.99 and $14.99\<close>
  "four_monthly =
    [candidate ''Spotify'' (999 / 100) ''monthly'' 1 ''bank'',
     candidate ''Hulu'' (1299 / 100) ''monthly'' 1 ''bank'',
     candidate ''Adobe'' (5299 / 100) ''monthly'' 1 ''bank'',
     candidate ''Netflix'' (1499 / 100) ''monthly'' 1 ''bank'']"

definition one_annual :: "DetectedSubscription list" where
  \<comment> \<open>one annual subscription of $100\<close>
  "one_annual = [candidate ''Adobe'' 100 ''annual'' 1 ''bank'']"


definition entry_of :: "rat \<Rightarrow> nat \<Rightarrow> entry" where
  \<comment> \<open>a grouped transaction of the given amount on the given day\<close>
  "entry_of amt day =
     \<lparr>e_amount = amt, e_date = day, e_transaction_id = ''tx'', e_account_id = ''acct''\<rparr>"

definition netflix_tx :: "nat \<Rightarrow> transaction" where
  \<comment> \<open>a debit of 15.49 to Netflix on the given day\<close>
  "netflix_tx day =
     \<lparr>tx_merchant_name = ''Netflix'', tx_amount = - (1549 / 100), tx_date = day,
      tx_transaction_id = ''tx'', tx_account_id = ''acct''\<rparr>"

definition erratic_netflix :: "transaction list" where
  \<comment> \<open>charges on 2024-01-01, 2024-01-11, 2024-03-01 and 2024-03-31\<close>
  "erratic_netflix = [netflix_tx 738885, netflix_tx 738895, netflix_tx 738945, netflix_tx 738975]"

definition receipt_subject :: string where
  "receipt_subject = ''Your receipt''"

definition netflix_sender :: string where
  "netflix_sender = ''Netflix <info@netflix.com>''"

definition monthly_body :: string where
  "monthly_body = ''Total: $15.49 per month''"

definition large_body :: string where
  "large_body = ''Total due: $1500.00''"

definition monthly_text :: string where
  \<comment> \<open>the text that \<^verbatim>\<open>_extract_subscription_info_from_email\<close> scans for the monthly receipt\<close>
  "monthly_text = lower (receipt_subject @ '' '' @ netflix_sender @ '' '' @ monthly_body)"

definition large_text :: string where
  "large_text = lower (receipt_subject @ '' '' @ netflix_sender @ '' '' @ large_body)"

definition first_match_is :: "string \<Rightarrow> rat \<Rightarrow> rx \<Rightarrow> bool" where
  \<comment> \<open>the pattern has a match in the text, and the first one is a number of value \<open>a\<close>\<close>
  "first_match_is text a p =
     (case re_findall p text of [] \<Rightarrow> False | m # ms \<Rightarrow> to_float m = Some a)"

definition out_of_band :: "string \<Rightarrow> bool" where
  \<comment> \<open>a matched number that is not a value in the band from 0.99 to 999.99\<close>
  "out_of_band m =
     (case to_float m of None \<Rightarrow> True | Some a \<Rightarrow> a < 99 / 100 \<or> 99999 / 100 < a)"

definition erratic_entries :: "entry list" where
  \<comment> \<open>the group that the charges of \<open>erratic_netflix\<close> form\<close>
  "erratic_entries =
    [entry_of (1549 / 100) 738885, entry_of (1549 / 100) 738895,
     entry_of (1549 / 100) 738945, entry_of (1549 / 100) 738975]"

definition erratic_pattern :: pattern_result where
  "erratic_pattern =
     \<lparr>p_billing_cycle = ''monthly'', p_average_amount = 1549 / 100,
      p_interval_consistency = - (1 / 3), p_last_transaction_date = of_day 738975,
      p_transaction_count = 4\<rparr>"

definition varied_group :: "entry list" where
  \<comment> \<open>two charges of different amounts\<close>
  "varied_group = [entry_of 10 0, entry_of 11 30]"

definition biweekly_group :: "entry list" where
  \<comment> \<open>four equal charges, fourteen days apart\<close>
  "biweekly_group = [entry_of 10 0, entry_of 10 14, entry_of 10 28, entry_of 10 42]"

definition short_group :: "entry list" where
  \<comment> \<open>three equal charges, thirty days apart\<close>
  "short_group = [entry_of 10 0, entry_of 10 30, entry_of 10 60]"

section \<open>Verified properties\<close>

subsection \<open>Evaluation rules\<close>

lemma lower_simps: "lower [] = []" "lower (c # cs) = lower_chr c # lower cs"
  by (simp_all add: lower_def)

lemmas chr_defs = lower_chr_def upper_chr_def is_upper_def is_lower_def is_alpha_def
  is_digit_def is_space_def py_ord_def

subsection \<open>Recurring pattern detector\<close>

lemma remdups_length_pos: "xs \<noteq> [] \<Longrightarrow> 1 \<le> length (remdups xs)"
  by (cases "remdups xs") (auto simp: Suc_le_eq)

lemma amount_consistency_lower:
  assumes "ts \<noteq> []"
  shows "1 / of_nat (length ts) \<le> amount_consistency ts"
proof -
  have "1 \<le> length (remdups (map e_amount ts))"
    using assms by (intro remdups_length_pos) simp
  then have "(1::rat) \<le> of_nat (length (remdups (map e_amount ts)))"
    by (metis of_nat_1 of_nat_le_iff)
  moreover have "(0::rat) < of_nat (length ts)" using assms by simp
  ultimately show ?thesis
    unfolding amount_consistency_def by (simp add: divide_le_cancel)
qed

lemma amount_consistency_sort_key:
  "amount_consistency (sort_key f ts) = amount_consistency ts"
proof -
  have "set (map e_amount (sort_key f ts)) = set (map e_amount ts)" by simp
  then have "length (remdups (map e_amount (sort_key f ts))) = length (remdups (map e_amount ts))"
    by (metis length_remdups_card_conv)
  then show ?thesis by (simp add: amount_consistency_def)
qed

lemma detect_variance:
  "amount_consistency ts > 3 / 10 \<Longrightarrow> detect_recurring_pattern ts = None"
  by (simp add: detect_recurring_pattern_def)

lemma intervals_biweekly: "intervals_of (map e_date biweekly_group) = [14, 14, 14]"
  by (simp add: intervals_of_def biweekly_group_def entry_of_def upt_rec)

lemma avg_interval_biweekly: "avg_interval biweekly_group = 14"
  by (simp add: avg_interval_def intervals_biweekly)

lemma amount_consistency_biweekly: "amount_consistency biweekly_group = 1 / 4"
  by (simp add: amount_consistency_def biweekly_group_def entry_of_def)

lemma amount_consistency_short: "amount_consistency short_group = 1 / 3"
  by (simp add: amount_consistency_def short_group_def entry_of_def)

lemma amount_consistency_varied: "amount_consistency varied_group = 1"
  by (simp add: amount_consistency_def varied_group_def entry_of_def)

text \<open>
  Claim C4. A transaction group of at least two transactions whose ratio of distinct amounts
  to transaction count exceeds 0.3 is rejected: \<^verbatim>\<open>_detect_recurring_pattern\<close> returns
  \<^verbatim>\<open>None\<close>, on the group as given and on the group sorted by date, so that
  \<^verbatim>\<open>_analyze_recurring_transactions\<close> records nothing for the merchant.
\<close>

theorem variance_rejects_group:
  assumes "2 \<le> length ts" and "amount_consistency ts > 3 / 10"
  shows "detect_recurring_pattern ts = None \<and> recurring_of_group (merchant, ts) = []"
proof -
  have "detect_recurring_pattern (sort_key e_date ts) = None"
    using assms(2) by (simp add: detect_variance amount_consistency_sort_key)
  then show ?thesis
    using assms(2) by (simp add: detect_variance recurring_of_group_def Let_def)
qed

theorem variance_rejects_group_witness:
  "2 \<le> length varied_group \<and> amount_consistency varied_group > 3 / 10
   \<and> detect_recurring_pattern varied_group = None
   \<and> recurring_of_group (''netflix'', varied_group) = []"
proof -
  have h1: "2 \<le> length varied_group" by (simp add: varied_group_def)
  have h2: "amount_consistency varied_group > 3 / 10" by (simp add: amount_consistency_varied)
  show ?thesis using h1 h2 variance_rejects_group [OF h1 h2, of "''netflix''"] by simp
qed

text \<open>
  Claim C5. For a transaction group that passes the amount-consistency check, an average
  interval outside the inclusive ranges 25--35, 85--95, 350--375 and 6--8 days gets no
  billing cycle, and \<^verbatim>\<open>_detect_recurring_pattern\<close> returns \<^verbatim>\<open>None\<close>.
\<close>

theorem no_cycle_rejects_group:
  assumes "2 \<le> length ts" and "amount_consistency ts \<le> 3 / 10"
    and "\<not> (25 \<le> avg_interval ts \<and> avg_interval ts \<le> 35)"
    and "\<not> (85 \<le> avg_interval ts \<and> avg_interval ts \<le> 95)"
    and "\<not> (350 \<le> avg_interval ts \<and> avg_interval ts \<le> 375)"
    and "\<not> (6 \<le> avg_interval ts \<and> avg_interval ts \<le> 8)"
  shows "cycle_of_interval (avg_interval ts) = None \<and> detect_recurring_pattern ts = None"
proof -
  have "cycle_of_interval (avg_interval ts) = None"
    using assms(3-6) by (simp add: cycle_of_interval_def)
  then show ?thesis by (simp add: detect_recurring_pattern_def)
qed

theorem no_cycle_rejects_group_witness:
  "2 \<le> length biweekly_group \<and> amount_consistency biweekly_group \<le> 3 / 10
   \<and> avg_interval biweekly_group = 14
   \<and> cycle_of_interval (avg_interval biweekly_group) = None
   \<and> detect_recurring_pattern biweekly_group = None"
proof -
  have h1: "2 \<le> length biweekly_group" by (simp add: biweekly_group_def)
  have h2: "amount_consistency biweekly_group \<le> 3 / 10"
    by (simp add: amount_consistency_biweekly)
  have h3: "\<not> (25 \<le> avg_interval biweekly_group \<and> avg_interval biweekly_group \<le> 35)"
    by (simp add: avg_interval_biweekly)
  have h4: "\<not> (85 \<le> avg_interval biweekly_group \<and> avg_interval biweekly_group \<le> 95)"
    by (simp add: avg_interval_biweekly)
  have h5: "\<not> (350 \<le> avg_interval biweekly_group \<and> avg_interval biweekly_group \<le> 375)"
    by (simp add: avg_interval_biweekly)
  have h6: "\<not> (6 \<le> avg_interval biweekly_group \<and> avg_interval biweekly_group \<le> 8)"
    by (simp add: avg_interval_biweekly)
  show ?thesis
    using h1 h2 no_cycle_rejects_group [OF h1 h2 h3 h4 h5 h6] by (simp add: avg_interval_biweekly)
qed

text \<open>
  Claim C10. A transaction group of fewer than four transactions never yields a pattern:
  with two or three transactions the ratio of distinct amounts to transaction count is at
  least 1/3, which is above the threshold 0.3 even when all amounts are equal, so the
  amount-consistency check rejects the group (and a group of fewer than two is rejected
  before that).
\<close>

theorem fewer_than_four_rejected:
  assumes "length ts < 4"
  shows "detect_recurring_pattern ts = None
    \<and> recurring_of_group (merchant, ts) = []
    \<and> (if 2 \<le> length ts then 1 / 3 \<le> amount_consistency ts \<and> amount_consistency ts > 3 / 10
        else True)"
proof (cases "2 \<le> length ts")
  case False
  then show ?thesis
    by (simp add: detect_recurring_pattern_def recurring_of_group_def Let_def)
next
  case True
  then have ne: "ts \<noteq> []" by auto
  have "length ts = 2 \<or> length ts = 3" using True assms by arith
  then have "(1::rat) / 3 \<le> 1 / of_nat (length ts)" by auto
  then have third: "1 / 3 \<le> amount_consistency ts"
    using amount_consistency_lower [OF ne] by linarith
  then have gt: "amount_consistency ts > 3 / 10" by linarith
  have "detect_recurring_pattern (sort_key e_date ts) = None"
    using gt by (simp add: detect_variance amount_consistency_sort_key)
  then show ?thesis
    using True third gt by (simp add: detect_variance recurring_of_group_def Let_def)
qed

theorem fewer_than_four_rejected_witness:
  "length short_group < 4 \<and> 2 \<le> length short_group
   \<and> amount_consistency short_group = 1 / 3
   \<and> detect_recurring_pattern short_group = None
   \<and> recurring_of_group (''netflix'', short_group) = []"
proof -
  have h: "length short_group < 4" by (simp add: short_group_def)
  have h2: "2 \<le> length short_group" by (simp add: short_group_def)
  show ?thesis
    using h h2 fewer_than_four_rejected [OF h, of "''netflix''"]
    by (simp add: amount_consistency_short)
qed

subsection \<open>Merge engine\<close>

lemma mset_insert_desc: "mset (insert_desc x ys) = add_mset x (mset ys)"
  by (induction ys) auto

lemma mset_sort_desc: "mset (sort_desc xs) = mset xs"
  by (induction xs) (auto simp: sort_desc_def mset_insert_desc)

lemma merge_with_no_emails: "merge_subscription_sources M [] = Inr (sort_desc M)"
  by (simp add: merge_subscription_sources_def)

lemma key_greater_asym: "key_greater a b \<Longrightarrow> \<not> key_greater b a"
  by (auto simp: key_greater_def)

lemma key_greater_neg_trans:
  "\<not> key_greater z y \<Longrightarrow> \<not> key_greater y x \<Longrightarrow> \<not> key_greater z x"
  by (auto simp: key_greater_def)

lemma set_insert_desc: "set (insert_desc x ys) = insert x (set ys)"
  by (induction ys) auto

lemma descending_insert: "descending ys \<Longrightarrow> descending (insert_desc x ys)"
proof (induction ys)
  case Nil
  then show ?case by (simp add: descending_def)
next
  case (Cons y ys)
  then show ?case
    by (auto simp: descending_def set_insert_desc key_greater_asym)
       (meson key_greater_neg_trans)
qed

lemma descending_sort_desc: "descending (sort_desc xs)"
  by (induction xs) (auto simp: sort_desc_def descending_insert, simp add: descending_def)

lemma sort_desc_descending: "descending xs \<Longrightarrow> sort_desc xs = xs"
proof (induction xs)
  case Nil
  then show ?case by (simp add: sort_desc_def)
next
  case (Cons x xs)
  then have "sort_desc xs = xs" by (simp add: descending_def)
  moreover have "insert_desc x xs = x # xs"
    using Cons.prems by (cases xs) (auto simp: descending_def)
  ultimately show ?case by (simp add: sort_desc_def)
qed

lemma merge_again_same:
  "merge_subscription_sources A B = Inr M \<Longrightarrow> merge_subscription_sources M [] = Inr M"
  by (auto simp: merge_subscription_sources_def sort_desc_descending descending_sort_desc
           split: sum.splits)

lemma netflix_duplicate: "are_subscriptions_duplicate netflix_bank netflix_email"
  by (simp add: are_subscriptions_duplicate_def netflix_bank_def netflix_email_def
        candidate_def strip_def lower_simps chr_defs)

lemma netflix_merge_duplicate:
  "merge_duplicate_subscriptions netflix_bank netflix_email = Inr netflix_both"
  by (simp add: merge_duplicate_subscriptions_def netflix_bank_def netflix_email_def
        netflix_both_def candidate_def or_min_def dt_max2_def datetime_min_def
        longer_name_def or_str_def or_date_def or_dict_def)

lemma netflix_merge_sources:
  "merge_subscription_sources [netflix_bank] [netflix_email] = Inr [netflix_both]"
  by (simp add: merge_subscription_sources_def netflix_duplicate netflix_merge_duplicate
        sort_desc_def)

text \<open>
  Claim C8. Merging is idempotent: when \<^verbatim>\<open>_merge_subscription_sources\<close> returns the list
  \<open>M\<close> for a bank list \<open>A\<close> and an email list \<open>B\<close>, merging \<open>M\<close> with the empty list again
  returns a list, and it holds the same records as \<open>M\<close>, each as often as \<open>M\<close> does.
\<close>

theorem merge_idempotent:
  assumes "merge_subscription_sources A B = Inr M"
  shows "\<exists>M'. merge_subscription_sources M [] = Inr M' \<and> mset M' = mset M"
proof -
  have "merge_subscription_sources M [] = Inr (sort_desc M)"
    by (rule merge_with_no_emails)
  moreover have "mset (sort_desc M) = mset M"
    by (rule mset_sort_desc)
  ultimately show ?thesis by blast
qed

theorem merge_idempotent_witness:
  "merge_subscription_sources [netflix_bank] [netflix_email] = Inr [netflix_both]
   \<and> (\<exists>M'. merge_subscription_sources [netflix_both] [] = Inr M' \<and> mset M' = mset [netflix_both])"
  using netflix_merge_sources merge_idempotent [OF netflix_merge_sources] by simp



lemma merge_duplicate_error:
  "merge_duplicate_subscriptions x y = Inl err \<Longrightarrow> err = TypeError"
  by (cases err) (auto simp: merge_duplicate_subscriptions_def dt_max2_def Let_def
        split: sum.splits elim: dt_gt.elims)

lemma merge_duplicate_returns:
  assumes "last_transaction_date x = None \<or> (\<exists>t. last_transaction_date x = Some (Naive t))"
    and "last_transaction_date y = None \<or> (\<exists>t. last_transaction_date y = Some (Naive t))"
  shows "\<exists>r. merge_duplicate_subscriptions x y = Inr r"
  using assms
  by (auto simp: merge_duplicate_subscriptions_def dt_max2_def or_min_def datetime_min_def Let_def)


lemma merge_data_fields:
  "detection_source (merge_subscription_data b e) = ''both''
   \<and> amount (merge_subscription_data b e) = amount b
   \<and> billing_cycle (merge_subscription_data b e) = billing_cycle b
   \<and> merchant_name (merge_subscription_data b e) = merchant_name b
   \<and> confidence_score (merge_subscription_data b e) = min (confidence_score b + 1 / 10) 1"
  by (simp add: merge_subscription_data_def)





subsection \<open>Merchant classifier\<close>

lemma netflix_group:
  "find (group_matches (lower ''Netflix Inc'')) subscription_patterns
     = Some (hd subscription_patterns)"
  "find (group_matches (lower ''netflix.com'')) subscription_patterns
     = Some (hd subscription_patterns)"
  by code_simp+

text \<open>
  Claim C3. \<^verbatim>\<open>_classify_merchant\<close> gives confidence 0.9 for \<open>Netflix Inc\<close> and for
  \<open>netflix.com\<close>, but the category it returns is \<open>streaming\<close>, the key of the taxonomy entry
  that matched; \<open>entertainment\<close> is the \<^verbatim>\<open>'category'\<close> field of that entry, which the
  classifier does not read.
\<close>

theorem classify_netflix:
  "classify_merchant ''Netflix Inc'' = (''streaming'', 9 / 10)
   \<and> classify_merchant ''netflix.com'' = (''streaming'', 9 / 10)
   \<and> map_option (group_category \<circ> snd)
        (find (group_matches (lower ''Netflix Inc'')) subscription_patterns)
       = Some ''entertainment''
   \<and> map_option (group_category \<circ> snd)
        (find (group_matches (lower ''netflix.com'')) subscription_patterns)
       = Some ''entertainment''"
proof -
  have first_group: "hd subscription_patterns = (''streaming'', snd (hd subscription_patterns))"
    and first_category: "group_category (snd (hd subscription_patterns)) = ''entertainment''"
    by (simp_all add: subscription_patterns_def)
  have "classify_merchant ''Netflix Inc'' = (''streaming'', 9 / 10)"
    unfolding classify_merchant_def Let_def netflix_group(1)
    by (subst first_group) simp
  moreover have "classify_merchant ''netflix.com'' = (''streaming'', 9 / 10)"
    unfolding classify_merchant_def Let_def netflix_group(2)
    by (subst first_group) simp
  ultimately show ?thesis
    by (simp add: netflix_group first_category)
qed

subsection \<open>Analytics engine\<close>

lemma totals_step_terms:
  "totals_step (m, a) s = (foldl fadd m (monthly_term s), foldl fadd a (annual_term s))"
  by (simp add: totals_step_def monthly_term_def annual_term_def Let_def)

lemma totals_foldl:
  "foldl totals_step (m, a) subs =
     (foldl fadd m (concat (map monthly_term subs)), foldl fadd a (concat (map annual_term subs)))"
proof (induction subs arbitrary: m a)
  case Nil
  then show ?case by simp
next
  case (Cons s subs)
  show ?case by (simp add: totals_step_terms Cons.IH)
qed

lemma analysis_totals:
  assumes "analyze_subscription_patterns now subs = Inr a"
  shows "total_monthly a = fround2 (monthly_sum subs) \<and> total_annual a = fround2 (annual_sum subs)"
proof (cases subs)
  case Nil
  then show ?thesis using assms
    by (auto simp: analyze_subscription_patterns_def monthly_sum_def annual_sum_def
          float_sum_def float_of_def round_half_even_def)
next
  case (Cons s rest)
  have "foldl totals_step (Fin 0, Fin 0) (s # rest)
          = (monthly_sum (s # rest), annual_sum (s # rest))"
    unfolding monthly_sum_def annual_sum_def float_sum_def by (rule totals_foldl)
  then show ?thesis using assms Cons
    by (auto simp: analyze_subscription_patterns_def Let_def simp del: foldl_Cons
          split: sum.splits)
qed

lemma no_trials_without_dates:
  "list_all (\<lambda>s. last_transaction_date s = None) subs \<Longrightarrow> count_unused_trials now subs = Inr 0"
  by (induction subs) (auto simp: is_unused_trial_def)

lemma analysis_returns_without_dates:
  assumes "list_all (\<lambda>s. last_transaction_date s = None) subs"
  shows "\<exists>a. analyze_subscription_patterns now subs = Inr a"
  using no_trials_without_dates [OF assms, of now]
  by (cases subs) (auto simp: analyze_subscription_patterns_def Let_def simp del: foldl_Cons)

lemma four_monthly_totals:
  "fround2 (monthly_sum four_monthly) = float_of (9096 / 100)"
  "fround2 (annual_sum four_monthly) = float_of (109152 / 100)"
  by code_simp+

lemma one_annual_totals:
  "fround2 (monthly_sum one_annual) = float_of (833 / 100)"
  "monthly_sum one_annual = Fin (4691249611844267 / 562949953421312)"
  "float_of (833 / 100) = Fin (4689373111999529 / 562949953421312)"
  by code_simp+

lemma rounding_of_doubles:
  "fround2 (monthly_sum [candidate ''Hulu'' (990 / 100) ''annual'' 1 ''bank'']) = float_of (83 / 100)"
  "fround2 (monthly_sum [candidate ''Hulu'' (950 / 100) ''weekly'' 1 ''bank''])
     = float_of (4113 / 100)"
  "fround2 (monthly_sum [candidate ''Hulu'' (2675 / 1000) ''monthly'' 1 ''bank''])
     = float_of (267 / 100)"
  by code_simp+

lemma four_monthly_dates: "list_all (\<lambda>s. last_transaction_date s = None) four_monthly"
  by (simp add: four_monthly_def candidate_def)

lemma one_annual_dates: "list_all (\<lambda>s. last_transaction_date s = None) one_annual"
  by (simp add: one_annual_def candidate_def)

text \<open>
  Claim C9, as amended. When \<^verbatim>\<open>_analyze_subscription_patterns\<close> returns, \<open>total_monthly\<close> is
  \<^verbatim>\<open>round(s, 2)\<close> of the sum \<open>s\<close>, added in list order in double precision, of the amount for
  monthly, the amount \<open>\<div>12\<close> for annual, the amount \<open>\<times>4.33\<close> for weekly and the amount \<open>\<div>3\<close>
  for quarterly billing, and \<open>total_annual\<close> is \<^verbatim>\<open>round(s, 2)\<close> of the sum with the multipliers
  \<open>\<times>12\<close>, \<open>\<times>1\<close>, \<open>\<times>52\<close> and \<open>\<times>4\<close>. For four monthly subscriptions of $9.99, $12.99, $52.99
  and $14.99 the totals are the doubles 90.96 and 1091.52, whatever the current time.
\<close>

theorem analytics_totals:
  assumes "analyze_subscription_patterns now subs = Inr a"
  shows "total_monthly a = fround2 (monthly_sum subs) \<and> total_annual a = fround2 (annual_sum subs)
    \<and> map_sum id (\<lambda>r. (total_monthly r, total_annual r))
        (analyze_subscription_patterns now four_monthly)
        = Inr (float_of (9096 / 100), float_of (109152 / 100))"
proof -
  obtain r where r: "analyze_subscription_patterns now four_monthly = Inr r"
    using analysis_returns_without_dates [OF four_monthly_dates] by blast
  have "total_monthly r = float_of (9096 / 100) \<and> total_annual r = float_of (109152 / 100)"
    using analysis_totals [OF r] by (simp only: four_monthly_totals)
  then have "map_sum id (\<lambda>r. (total_monthly r, total_annual r))
               (analyze_subscription_patterns now four_monthly)
               = Inr (float_of (9096 / 100), float_of (109152 / 100))"
    using r by simp
  with analysis_totals [OF assms] show ?thesis by blast
qed

theorem analytics_totals_witness:
  "map_sum id (\<lambda>r. (total_monthly r, total_annual r))
     (analyze_subscription_patterns 0 four_monthly)
     = Inr (float_of (9096 / 100), float_of (109152 / 100))
   \<and> fround2 (monthly_sum four_monthly) = float_of (9096 / 100)
   \<and> fround2 (annual_sum four_monthly) = float_of (109152 / 100)"
proof -
  obtain a where a: "analyze_subscription_patterns 0 four_monthly = Inr a"
    using analysis_returns_without_dates [OF four_monthly_dates] by blast
  show ?thesis
    using analytics_totals [OF a] four_monthly_totals by blast
qed

text \<open>
  Without the rounding the claim fails: for one annual subscription of $100 the sum is the
  double nearest to 100/12, which is 8.333333333333334, and the reported \<open>total_monthly\<close> is
  the double 8.33.
\<close>

theorem analytics_totals_counterexample:
  "map_sum id total_monthly (analyze_subscription_patterns 0 one_annual)
     = Inr (Fin (4689373111999529 / 562949953421312))
   \<and> float_of (833 / 100) = Fin (4689373111999529 / 562949953421312)
   \<and> monthly_sum one_annual = Fin (4691249611844267 / 562949953421312)
   \<and> Fin (4689373111999529 / 562949953421312) \<noteq> monthly_sum one_annual
   \<and> Fin (4689373111999529 / 562949953421312) \<noteq> Fin (100 / 12)"
proof -
  obtain a where a: "analyze_subscription_patterns 0 one_annual = Inr a"
    using analysis_returns_without_dates [OF one_annual_dates] by blast
  have "total_monthly a = fround2 (monthly_sum one_annual)"
    using analysis_totals [OF a] by blast
  then have "total_monthly a = Fin (4689373111999529 / 562949953421312)"
    by (simp only: one_annual_totals(1) one_annual_totals(3))
  then have "map_sum id total_monthly (analyze_subscription_patterns 0 one_annual)
               = Inr (Fin (4689373111999529 / 562949953421312))"
    using a by simp
  moreover have "Fin (4689373111999529 / 562949953421312) \<noteq> monthly_sum one_annual"
    by (simp add: one_annual_totals(2))
  moreover have "Fin (4689373111999529 / 562949953421312) \<noteq> Fin (100 / 12)"
    by simp
  ultimately show ?thesis
    using one_annual_totals(2) one_annual_totals(3) by blast
qed

subsection \<open>Email signal extractor\<close>

lemma info_confidence:
  assumes "extract_subscription_info_from_email subject sender body date = Some info"
  shows "\<exists>m. extracted_merchant subject sender = Some m
           \<and> i_confidence_score info = min (snd (classify_merchant m) + 1 / 10) 1"
  using assms
  by (auto simp: extract_subscription_info_from_email_def Let_def
        split: option.splits list.splits if_splits sum.splits)

lemma candidate_confidence:
  assumes "analyze_email_for_subscription subject sender date body = Some sub"
  shows "\<exists>m. extracted_merchant subject sender = Some m
           \<and> confidence_score sub = min (snd (classify_merchant m) + 1 / 10) 1"
proof -
  obtain info where i: "extract_subscription_info_from_email subject sender body date = Some info"
    and s: "confidence_score sub = i_confidence_score info"
    using assms by (auto simp: analyze_email_for_subscription_def split: option.splits)
  from info_confidence [OF i] s show ?thesis by auto
qed

lemma old_email_confidence:
  assumes "extract_subscription_from_email subject sender body = Some sub"
  shows "\<exists>m. extract_merchant_from_email sender subject body = Some m
           \<and> confidence_score sub = snd (classify_merchant m) * (8 / 10)"
  using assms
  by (auto simp: extract_subscription_from_email_def split: option.splits list.splits if_splits)

lemma netflix_new_email:
  "map_option confidence_score
     (analyze_email_for_subscription receipt_subject netflix_sender None monthly_body) = Some 1"
  "extracted_merchant receipt_subject netflix_sender = Some ''Netflix''"
  by code_simp+

lemma classify_netflix_title: "classify_merchant ''Netflix'' = (''streaming'', 9 / 10)"
  by code_simp

text \<open>
  Claim C7. A candidate that the email discovery emits (\<^verbatim>\<open>_analyze_email_for_subscription\<close>,
  through \<^verbatim>\<open>_extract_subscription_info_from_email\<close>) has as confidence the classifier's
  confidence for the extracted merchant name plus 0.1, clamped to 1; the same holds of the
  record that \<^verbatim>\<open>_extract_subscription_info_from_email\<close> returns.
\<close>

theorem email_confidence:
  assumes "analyze_email_for_subscription subject sender date body = Some sub"
  shows "\<exists>m info. extracted_merchant subject sender = Some m
           \<and> extract_subscription_info_from_email subject sender body date = Some info
           \<and> i_confidence_score info = min (snd (classify_merchant m) + 1 / 10) 1
           \<and> confidence_score sub = min (snd (classify_merchant m) + 1 / 10) 1
           \<and> detection_source sub = ''email''"
proof -
  obtain info where i: "extract_subscription_info_from_email subject sender body date = Some info"
    and s: "confidence_score sub = i_confidence_score info"
    and d: "detection_source sub = ''email''"
    using assms by (auto simp: analyze_email_for_subscription_def split: option.splits)
  obtain m where m: "extracted_merchant subject sender = Some m"
    and c: "i_confidence_score info = min (snd (classify_merchant m) + 1 / 10) 1"
    using info_confidence [OF i] by blast
  from i s d m c show ?thesis by auto
qed

theorem email_confidence_witness:
  "map_option confidence_score
     (analyze_email_for_subscription receipt_subject netflix_sender None monthly_body)
     = Some (min (snd (classify_merchant ''Netflix'') + 1 / 10) 1)
   \<and> extracted_merchant receipt_subject netflix_sender = Some ''Netflix''
   \<and> min (snd (classify_merchant ''Netflix'') + 1 / 10) 1 = 1"
proof -
  obtain sub where sub:
    "analyze_email_for_subscription receipt_subject netflix_sender None monthly_body = Some sub"
    using netflix_new_email(1) by auto
  have "confidence_score sub = min (snd (classify_merchant ''Netflix'') + 1 / 10) 1"
    using email_confidence [OF sub] netflix_new_email(2) by auto
  then show ?thesis
    using sub netflix_new_email(2) by (simp add: classify_netflix_title)
qed

lemma amount_from_patterns_band:
  "amount_from_patterns ps text = Some a \<Longrightarrow> 99 / 100 \<le> a \<and> a \<le> 99999 / 100"
  by (induction ps) (auto split: list.splits option.splits if_splits)

lemma amount_from_patterns_match:
  "amount_from_patterns ps text = Some a \<Longrightarrow> list_ex (first_match_is text a) ps"
  by (induction ps) (auto simp: first_match_is_def split: list.splits option.splits if_splits)

lemma amount_from_patterns_none:
  "list_all (\<lambda>p. list_all out_of_band (re_findall p text)) ps \<Longrightarrow>
   amount_from_patterns ps text = None"
  by (induction ps) (auto simp: out_of_band_def split: list.splits option.splits)

lemma extract_amount_from_text_none:
  "list_all (\<lambda>p. list_all out_of_band (re_findall p text)) text_amount_patterns \<Longrightarrow>
   extract_amount_from_text text = None"
  unfolding extract_amount_from_text_def by (rule amount_from_patterns_none)

lemma no_amount_no_candidate:
  assumes "extract_amount_from_text (lower (subject @ '' '' @ sender @ '' '' @ body)) = None"
  shows "extract_subscription_info_from_email subject sender body date = None
    \<and> analyze_email_for_subscription subject sender date body = None"
  using assms
  by (auto simp: analyze_email_for_subscription_def extract_subscription_info_from_email_def
        Let_def split: option.splits list.splits)

lemma monthly_amount: "extract_amount_from_text monthly_text = Some (1549 / 100)"
  by code_simp

lemma large_matches:
  "list_all (\<lambda>p. list_all out_of_band (re_findall p large_text)) text_amount_patterns"
  by code_simp

lemma large_first_match:
  "re_findall (hd text_amount_patterns) large_text = [''1500.00'']"
  "to_float ''1500.00'' = Some 1500"
  by code_simp+

text \<open>
  Claim C6. The amount that \<^verbatim>\<open>_extract_amount_from_text\<close> returns is the value of the first
  match of one of its patterns and lies between 0.99 and 999.99. When every match of every
  pattern has a value outside that band, it returns \<^verbatim>\<open>None\<close>, and then
  \<^verbatim>\<open>_extract_subscription_info_from_email\<close> returns \<^verbatim>\<open>None\<close> and no candidate is emitted for
  the message.
\<close>

theorem amount_band:
  "(extract_amount_from_text text = Some a \<longrightarrow>
      99 / 100 \<le> a \<and> a \<le> 99999 / 100
      \<and> list_ex (first_match_is text a) text_amount_patterns)
   \<and> (list_all (\<lambda>p. list_all out_of_band (re_findall p text)) text_amount_patterns \<longrightarrow>
      extract_amount_from_text text = None)
   \<and> (list_all (\<lambda>p. list_all out_of_band
                       (re_findall p (lower (subject @ '' '' @ sender @ '' '' @ body))))
         text_amount_patterns \<longrightarrow>
      extract_subscription_info_from_email subject sender body date = None
      \<and> analyze_email_for_subscription subject sender date body = None)"
proof (intro conjI impI)
  assume "extract_amount_from_text text = Some a"
  then have a: "amount_from_patterns text_amount_patterns text = Some a"
    by (simp add: extract_amount_from_text_def)
  from amount_from_patterns_band [OF a]
  show "99 / 100 \<le> a" and "a \<le> 99999 / 100" by simp_all
  from amount_from_patterns_match [OF a]
  show "list_ex (first_match_is text a) text_amount_patterns" .
next
  assume "list_all (\<lambda>p. list_all out_of_band (re_findall p text)) text_amount_patterns"
  then show "extract_amount_from_text text = None"
    by (rule extract_amount_from_text_none)
next
  assume all: "list_all (\<lambda>p. list_all out_of_band
                 (re_findall p (lower (subject @ '' '' @ sender @ '' '' @ body))))
               text_amount_patterns"
  have none: "extract_amount_from_text (lower (subject @ '' '' @ sender @ '' '' @ body)) = None"
    using all by (rule extract_amount_from_text_none)
  from no_amount_no_candidate [OF none]
  show "extract_subscription_info_from_email subject sender body date = None"
    and "analyze_email_for_subscription subject sender date body = None" by simp_all
qed

theorem amount_band_witness:
  "extract_amount_from_text monthly_text = Some (1549 / 100)
   \<and> (99 / 100 :: rat) \<le> 1549 / 100 \<and> (1549 / 100 :: rat) \<le> 99999 / 100
   \<and> re_findall (hd text_amount_patterns) large_text = [''1500.00'']
   \<and> to_float ''1500.00'' = Some 1500
   \<and> list_all (\<lambda>p. list_all out_of_band (re_findall p large_text)) text_amount_patterns
   \<and> extract_amount_from_text large_text = None
   \<and> analyze_email_for_subscription receipt_subject netflix_sender None large_body = None"
proof -
  note band = amount_band [of monthly_text "1549 / 100" receipt_subject netflix_sender large_body None]
  note none = amount_band [of large_text "0" receipt_subject netflix_sender large_body None]
  have l: "list_all (\<lambda>p. list_all out_of_band
              (re_findall p (lower (receipt_subject @ '' '' @ netflix_sender @ '' '' @ large_body))))
            text_amount_patterns"
    using large_matches unfolding large_text_def .
  have "extract_amount_from_text large_text = None"
    using none large_matches by blast
  moreover have "analyze_email_for_subscription receipt_subject netflix_sender None large_body = None"
    using none l by blast
  moreover have "(99 / 100 :: rat) \<le> 1549 / 100 \<and> (1549 / 100 :: rat) \<le> 99999 / 100"
    using band monthly_amount by blast
  ultimately show ?thesis
    using monthly_amount large_matches large_first_match by blast
qed

subsection \<open>Confidence range\<close>

lemma classify_confidence:
  "snd (classify_merchant name) = 9 / 10 \<or> snd (classify_merchant name) = 6 / 10
   \<or> snd (classify_merchant name) = 3 / 10"
  by (auto simp: classify_merchant_def Let_def split: option.splits)

lemma new_email_confidence_range:
  assumes "analyze_email_for_subscription subject sender date body = Some sub"
  shows "0 \<le> confidence_score sub \<and> confidence_score sub \<le> 1"
proof -
  obtain m where "confidence_score sub = min (snd (classify_merchant m) + 1 / 10) 1"
    using candidate_confidence [OF assms] by blast
  then show ?thesis using classify_confidence [of m] by auto
qed

lemma old_email_confidence_range:
  assumes "extract_subscription_from_email subject sender body = Some sub"
  shows "0 \<le> confidence_score sub \<and> confidence_score sub \<le> 1"
proof -
  obtain m where "confidence_score sub = snd (classify_merchant m) * (8 / 10)"
    using old_email_confidence [OF assms] by blast
  then show ?thesis using classify_confidence [of m] by auto
qed

lemma merge_duplicate_confidence_range:
  assumes "merge_duplicate_subscriptions x y = Inr r"
    and "0 \<le> confidence_score x" and "0 \<le> confidence_score y"
  shows "0 \<le> confidence_score r \<and> confidence_score r \<le> 1"
  using assms
  by (auto simp: merge_duplicate_subscriptions_def Let_def split: sum.splits if_splits)

lemma merge_data_confidence_range:
  "0 \<le> confidence_score b \<Longrightarrow>
   0 \<le> confidence_score (merge_subscription_data b e)
   \<and> confidence_score (merge_subscription_data b e) \<le> 1"
  by (simp add: merge_subscription_data_def)

lemma lower_netflix: "lower ''Netflix'' = ''netflix''"
  by code_simp

lemma erratic_groups: "foldl group_step [] erratic_netflix = [(''netflix'', erratic_entries)]"
  by (simp add: erratic_netflix_def erratic_entries_def netflix_tx_def entry_of_def group_step_def
        lower_netflix Let_def)

lemma erratic_sorted: "sort_key e_date erratic_entries = erratic_entries"
  by (simp add: erratic_entries_def entry_of_def)

lemma erratic_intervals: "intervals_of (map e_date erratic_entries) = [10, 50, 30]"
  by (simp add: intervals_of_def erratic_entries_def entry_of_def upt_rec)

lemma erratic_avg: "avg_interval erratic_entries = 30"
  by (simp add: avg_interval_def erratic_intervals)

lemma erratic_consistency: "amount_consistency erratic_entries = 1 / 4"
  by (simp add: amount_consistency_def erratic_entries_def entry_of_def)

lemma erratic_detect: "detect_recurring_pattern erratic_entries = Some erratic_pattern"
  by (simp add: detect_recurring_pattern_def erratic_consistency erratic_avg cycle_of_interval_def
        erratic_intervals erratic_pattern_def)
     (simp add: erratic_entries_def entry_of_def)

lemma classify_netflix_lower: "classify_merchant ''netflix'' = (''streaming'', 9 / 10)"
  by code_simp

lemma erratic_recurring:
  "analyze_recurring_transactions erratic_netflix =
     [\<lparr>r_merchant_name = ''netflix'', r_pattern = erratic_pattern, r_category = ''streaming'',
       r_confidence = 9 / 10, r_transactions = erratic_entries\<rparr>]"
  by (simp add: analyze_recurring_transactions_def erratic_groups recurring_of_group_def
        erratic_sorted erratic_detect classify_netflix_lower Let_def)
     (simp add: erratic_entries_def)

lemma erratic_next_date:
  "next_date_of_cycle (of_day 738975) ''monthly'' = Inr (Some (of_day 739005))"
  by (simp add: next_date_of_cycle_def of_day_def us_per_day_def datetime_max_us_def)

text \<open>
  Claim C2. The candidates of the email extractors and of the two merges keep a confidence
  between 0 and 1 (the lemmas above), but \<^verbatim>\<open>_create_subscription_from_transaction\<close> multiplies
  the classifier's confidence by the interval consistency
  \<open>1 - (max_interval - min_interval) / avg_interval\<close>, which is negative when the intervals
  spread by more than their average. Four equal Netflix charges on 2024-01-01, 2024-01-11,
  2024-03-01 and 2024-03-31 have the intervals 10, 50 and 30, are accepted as a monthly
  pattern, and give a candidate whose confidence is \<open>0.9 \<times> (-1/3) = -0.3\<close>.
\<close>

theorem negative_confidence:
  "map (map_option confidence_score \<circ> create_subscription_from_transaction)
     (analyze_recurring_transactions erratic_netflix) = [Some (- (3 / 10))]
   \<and> map (p_interval_consistency \<circ> r_pattern) (analyze_recurring_transactions erratic_netflix)
       = [- (1 / 3)]"
  by (simp add: erratic_recurring create_subscription_from_transaction_def Let_def
        erratic_next_date) (simp add: erratic_pattern_def erratic_next_date)

end
